theory Spec2Isabelle
  imports Main "HOL-Library.AList"
begin

section \<open>Python values used by the pipeline\<close>

text \<open>
  Strings are byte lists in UTF-8; the Chinese literals of the source are written
  out as their bytes.  \<open>str_int\<close> is Python's \<open>str\<close> on an \<open>int\<close>, as the
  f-strings \<open>f'{year}_{company_code}_...'\<close> apply it.
\<close>

fun str_nat :: "nat \<Rightarrow> string" where
  "str_nat n =
     (if n < 10 then [''0123456789'' ! n]
      else str_nat (n div 10) @ [''0123456789'' ! (n mod 10)])"

declare str_nat.simps [simp del]

definition str_int :: "int \<Rightarrow> string" where
  "str_int i = (if i < 0 then ''-'' @ str_nat (nat (- i)) else str_nat (nat i))"

text \<open>\<open>os.path.join\<close> (posix) on two components.\<close>

definition os_path_join :: "string \<Rightarrow> string \<Rightarrow> string" where
  "os_path_join a b =
     (if b \<noteq> [] \<and> hd b = CHR ''/'' then b
      else if a = [] \<or> last a = CHR ''/'' then a @ b
      else a @ ''/'' @ b)"

text \<open>What \<open>json.load\<close> returns.  A float is kept as its literal text.\<close>

datatype json =
    JNull
  | JBool bool
  | JInt int
  | JFloat string
  | JStr string
  | JList "json list"
  | JDict "(string \<times> json) list"

text \<open>
  The exceptions that \<open>open\<close>, \<open>json.load\<close>, \<open>os.remove\<close> and the
  collaborators raise, each with its \<open>str(e)\<close>.  All of them are subclasses of
  \<open>Exception\<close>; \<open>JSONDecodeError\<close> is kept apart because
  \<open>check_json_valid\<close> has a handler of its own for it.
\<close>

datatype exn = JSONDecodeError string | OtherException string

fun exn_text :: "exn \<Rightarrow> string" where
  "exn_text (JSONDecodeError e) = e"
| "exn_text (OtherException e) = e"

section \<open>The filesystem\<close>

text \<open>
  A file is what reading it as JSON gives (the parsed value, or the exception that
  \<open>open\<close> or \<open>json.load\<close> raises) and whether \<open>os.remove\<close> on it fails.
  The filesystem is an association list from paths to files, in directory order.
\<close>

record node =
  content :: "exn + json"
  remove_error :: "string option"

type_synonym filesystem = "(string \<times> node) list"

definition os_path_exists :: "filesystem \<Rightarrow> string \<Rightarrow> bool" where
  "os_path_exists fs p = (map_of fs p \<noteq> None)"

definition json_load :: "filesystem \<Rightarrow> string \<Rightarrow> exn + json" where
  "json_load fs p =
     (case map_of fs p of
        None \<Rightarrow> Inl (OtherException ''FileNotFoundError'')
      | Some n \<Rightarrow> content n)"

definition os_remove :: "filesystem \<Rightarrow> string \<Rightarrow> exn + filesystem" where
  "os_remove fs p =
     (case map_of fs p of
        None \<Rightarrow> Inl (OtherException ''FileNotFoundError'')
      | Some n \<Rightarrow>
          (case remove_error n of
             Some e \<Rightarrow> Inl (OtherException e)
           | None \<Rightarrow> Inr (AList.delete p fs)))"

text \<open>
  \<open>glob.glob\<close> on a pattern whose wildcards are \<open>*\<close> and \<open>?\<close>: a wildcard
  matches within one path component.  Bracket classes are outside the modelled
  fragment; the one pattern the pipeline builds, \<open>{year}_{company_code}_*.pdf\<close>,
  has a bracket only when the company code has one.
\<close>

fun fnmatch :: "string \<Rightarrow> string \<Rightarrow> bool" where
  "fnmatch [] [] = True"
| "fnmatch [] (c # cs) = False"
| "fnmatch (p # ps) [] = (p = CHR ''*'' \<and> fnmatch ps [])"
| "fnmatch (p # ps) (c # cs) =
     (if p = CHR ''*'' then fnmatch ps (c # cs) \<or> (c \<noteq> CHR ''/'' \<and> fnmatch (p # ps) cs)
      else if p = CHR ''?'' then c \<noteq> CHR ''/'' \<and> fnmatch ps cs
      else p = c \<and> fnmatch ps cs)"

definition glob_glob :: "filesystem \<Rightarrow> string \<Rightarrow> string list" where
  "glob_glob fs pattern = filter (fnmatch pattern) (map fst fs)"

section \<open>Configuration\<close>

text \<open>
  \<open>config.PATHS\<close> and \<open>config.get_file_path\<close> are imported by
  \<open>recovery_utils.py\<close> and \<open>app.py\<close> but are not among the source files, so
  they are parameters of every function that uses them.
\<close>

record config =
  PATHS :: "string \<Rightarrow> string"
  get_file_path :: "string \<Rightarrow> int \<Rightarrow> string \<Rightarrow> string"

section \<open>recovery\_utils.py\<close>

definition msg_pdf_missing :: string where
  "msg_pdf_missing =
     ''PDF '' @ [CHR 0xE4, CHR 0xB8, CHR 0x8D, CHR 0xE5, CHR 0xAD, CHR 0x98, CHR 0xE5,
       CHR 0x9C, CHR 0xA8] @ '': ''"

definition msg_file_missing :: string where
  "msg_file_missing =
     [CHR 0xE6, CHR 0xAA, CHR 0x94, CHR 0xE6, CHR 0xA1, CHR 0x88, CHR 0xE4, CHR 0xB8,
      CHR 0x8D, CHR 0xE5, CHR 0xAD, CHR 0x98, CHR 0xE5, CHR 0x9C, CHR 0xA8] @ '': ''"

definition msg_valid_json :: string where
  "msg_valid_json =
     [CHR 0xE6, CHR 0x9C, CHR 0x89, CHR 0xE6, CHR 0x95, CHR 0x88] @ '' JSON (''"

definition msg_records :: string where
  "msg_records =
     '' '' @ [CHR 0xE7, CHR 0xAD, CHR 0x86, CHR 0xE8, CHR 0xB3, CHR 0x87, CHR 0xE6,
       CHR 0x96, CHR 0x99] @ '')''"

definition msg_object :: string where
  "msg_object = [CHR 0xE7, CHR 0x89, CHR 0xA9, CHR 0xE4, CHR 0xBB, CHR 0xB6] @ '')''"

definition msg_json_empty :: string where
  "msg_json_empty =
     ''JSON '' @ [CHR 0xE5, CHR 0x85, CHR 0xA7, CHR 0xE5, CHR 0xAE, CHR 0xB9, CHR 0xE7,
       CHR 0x82, CHR 0xBA, CHR 0xE7, CHR 0xA9, CHR 0xBA]"

definition msg_parse_failed :: string where
  "msg_parse_failed =
     ''JSON '' @ [CHR 0xE8, CHR 0xA7, CHR 0xA3, CHR 0xE6, CHR 0x9E, CHR 0x90, CHR 0xE5,
       CHR 0xA4, CHR 0xB1, CHR 0xE6, CHR 0x95, CHR 0x97] @ '': ''"

definition msg_read_failed :: string where
  "msg_read_failed =
     [CHR 0xE8, CHR 0xAE, CHR 0x80, CHR 0xE5, CHR 0x8F, CHR 0x96, CHR 0xE5, CHR 0xA4,
      CHR 0xB1, CHR 0xE6, CHR 0x95, CHR 0x97] @ '': ''"

definition msg_stage6 :: string where
  "msg_stage6 =
     ''Stage 6 '' @ [CHR 0xE9, CHR 0x9C, CHR 0x80, CHR 0xE5, CHR 0x9C, CHR 0xA8, CHR 0xE8,
       CHR 0xB3, CHR 0x87, CHR 0xE6, CHR 0x96, CHR 0x99, CHR 0xE5, CHR 0xBA, CHR 0xAB,
       CHR 0xE5, CHR 0xB1, CHR 0xA4, CHR 0xE6, CHR 0xAA, CHR 0xA2, CHR 0xE6, CHR 0x9F,
       CHR 0xA5]"

definition msg_unknown_stage :: string where
  "msg_unknown_stage =
     [CHR 0xE6, CHR 0x9C, CHR 0xAA, CHR 0xE7, CHR 0x9F, CHR 0xA5, CHR 0xE9, CHR 0x9A,
      CHR 0x8E, CHR 0xE6, CHR 0xAE, CHR 0xB5] @ '': ''"

text \<open>\<open>check_pdf_exists\<close>, lines 20-33: the first match of the glob, if any.\<close>

definition check_pdf_exists :: "config \<Rightarrow> filesystem \<Rightarrow> int \<Rightarrow> string \<Rightarrow> bool \<times> string" where
  "check_pdf_exists cfg fs year company_code =
     (let pattern = os_path_join (PATHS cfg ''ESG_REPORTS'')
                      (str_int year @ ''_'' @ company_code @ ''_*.pdf'')
      in case glob_glob fs pattern of
           m # _ \<Rightarrow> (True, m)
         | [] \<Rightarrow> (False, msg_pdf_missing @ pattern))"

text \<open>
  \<open>check_json_valid\<close>, lines 36-60.  \<open>check_json_try\<close> is the body of the
  \<open>try\<close>: reading and parsing may raise, and the raise is its \<open>Inl\<close>.
  \<open>check_json_valid\<close> adds the test before the \<open>try\<close> and the two handlers;
  its own \<open>Inl\<close> would be an exception that leaves the function.
\<close>

definition check_json_try :: "filesystem \<Rightarrow> string \<Rightarrow> exn + bool \<times> string" where
  "check_json_try fs file_path =
     (case json_load fs file_path of
        Inl e \<Rightarrow> Inl e
      | Inr data \<Rightarrow>
          (case data of
             JList xs \<Rightarrow>
               if length xs > 0
               then Inr (True, msg_valid_json @ str_nat (length xs) @ msg_records)
               else Inr (False, msg_json_empty)
           | JDict kvs \<Rightarrow>
               if length kvs > 0
               then Inr (True, msg_valid_json @ msg_object)
               else Inr (False, msg_json_empty)
           | _ \<Rightarrow> Inr (False, msg_json_empty)))"

definition check_json_valid :: "filesystem \<Rightarrow> string \<Rightarrow> exn + bool \<times> string" where
  "check_json_valid fs file_path =
     (if \<not> os_path_exists fs file_path then Inr (False, msg_file_missing @ file_path)
      else case check_json_try fs file_path of
             Inr r \<Rightarrow> Inr r
           | Inl (JSONDecodeError e) \<Rightarrow> Inr (False, msg_parse_failed @ e)
           | Inl (OtherException e) \<Rightarrow> Inr (False, msg_read_failed @ e))"

text \<open>
  The four JSON branches of \<open>check_stage_completion\<close> share this shape:
  \<open>valid, msg = check_json_valid(path); return valid, path if valid else "", msg\<close>.
\<close>

definition json_stage :: "filesystem \<Rightarrow> string \<Rightarrow> exn + bool \<times> string \<times> string" where
  "json_stage fs p =
     (case check_json_valid fs p of
        Inl e \<Rightarrow> Inl e
      | Inr (valid, msg) \<Rightarrow> Inr (valid, if valid then p else [], msg))"

text \<open>\<open>check_stage_completion\<close>, lines 63-108.\<close>

definition check_stage_completion ::
  "config \<Rightarrow> filesystem \<Rightarrow> int \<Rightarrow> string \<Rightarrow> string \<Rightarrow> exn + bool \<times> string \<times> string" where
  "check_stage_completion cfg fs year company_code stage =
     (if stage = ''stage1'' then
        (case check_pdf_exists cfg fs year company_code of
           (exists, path_or_msg) \<Rightarrow> Inr (exists, if exists then path_or_msg else [], path_or_msg))
      else if stage = ''stage2'' then json_stage fs (get_file_path cfg ''P1_JSON'' year company_code)
      else if stage = ''stage3'' then json_stage fs (get_file_path cfg ''NEWS_JSON'' year company_code)
      else if stage = ''stage4'' then json_stage fs (get_file_path cfg ''P2_JSON'' year company_code)
      else if stage = ''stage5'' then json_stage fs (get_file_path cfg ''P3_JSON'' year company_code)
      else if stage = ''stage6'' then Inr (False, [], msg_stage6)
      else Inr (False, [], msg_unknown_stage @ stage))"

text \<open>\<open>determine_resume_point\<close>, lines 111-159.\<close>

record stage_detail =
  completed :: bool
  path :: string
  msg :: string

record resume_result =
  resume_from :: string
  completed_stages :: "string list"
  stage_details :: "(string \<times> stage_detail) list"

definition stages :: "string list" where
  "stages = [''stage1'', ''stage2'', ''stage3'', ''stage4'', ''stage5'', ''stage6'']"

text \<open>The first loop (lines 138-147), over the stages still to check.\<close>

fun check_loop ::
  "config \<Rightarrow> filesystem \<Rightarrow> int \<Rightarrow> string \<Rightarrow> string list \<Rightarrow> resume_result \<Rightarrow> exn + resume_result" where
  "check_loop cfg fs year company_code [] result = Inr result"
| "check_loop cfg fs year company_code (stage # rest) result =
     (case check_stage_completion cfg fs year company_code stage of
        Inl e \<Rightarrow> Inl e
      | Inr (c, p, m) \<Rightarrow>
          check_loop cfg fs year company_code rest
            (result\<lparr>stage_details :=
                      AList.update stage \<lparr>completed = c, path = p, msg = m\<rparr> (stage_details result),
                    completed_stages :=
                      (if c then completed_stages result @ [stage] else completed_stages result)\<rparr>))"

text \<open>The second loop (lines 151-157): \<open>for ... break ... else\<close>.\<close>

definition first_incomplete :: "string list \<Rightarrow> string list \<Rightarrow> string" where
  "first_incomplete sts completed_list =
     (case List.find (\<lambda>stage. stage \<notin> set completed_list) sts of
        Some stage \<Rightarrow> stage
      | None \<Rightarrow> ''stage6'')"

definition determine_resume_point ::
  "config \<Rightarrow> filesystem \<Rightarrow> int \<Rightarrow> string \<Rightarrow> string \<Rightarrow> exn + resume_result" where
  "determine_resume_point cfg fs year company_code current_status =
     (case check_loop cfg fs year company_code stages
             \<lparr>resume_from = ''stage1'', completed_stages = [], stage_details = []\<rparr> of
        Inl e \<Rightarrow> Inl e
      | Inr result \<Rightarrow>
          Inr (result\<lparr>resume_from := first_incomplete stages (completed_stages result)\<rparr>))"

definition reported_complete :: "config \<Rightarrow> filesystem \<Rightarrow> int \<Rightarrow> string \<Rightarrow> string \<Rightarrow> bool" where
  "reported_complete cfg fs year company_code stage =
     (case check_stage_completion cfg fs year company_code stage of
        Inr (c, p, m) \<Rightarrow> c
      | Inl e \<Rightarrow> False)"

definition detail_of :: "config \<Rightarrow> filesystem \<Rightarrow> int \<Rightarrow> string \<Rightarrow> string \<Rightarrow> stage_detail" where
  "detail_of cfg fs year company_code stage =
     (case check_stage_completion cfg fs year company_code stage of
        Inr (c, p, m) \<Rightarrow> \<lparr>completed = c, path = p, msg = m\<rparr>
      | Inl e \<Rightarrow> \<lparr>completed = False, path = [], msg = []\<rparr>)"

definition artifact_unusable :: "filesystem \<Rightarrow> string \<Rightarrow> bool" where
  "artifact_unusable fs p =
     (case map_of fs p of
        None \<Rightarrow> True
      | Some n \<Rightarrow>
          (case content n of
             Inl e \<Rightarrow> True
           | Inr (JList xs) \<Rightarrow> xs = []
           | Inr (JDict kvs) \<Rightarrow> kvs = []
           | Inr other \<Rightarrow> True))"

definition repo_layout :: config where
  "repo_layout =
     \<lparr>PATHS = (\<lambda>key.
         if key = ''ESG_REPORTS'' then ''temp_data/esgReport''
         else if key = ''P1_JSON'' then ''temp_data/prompt1_json''
         else if key = ''NEWS_OUTPUT'' then ''temp_data/news_output''
         else if key = ''P2_JSON'' then ''temp_data/prompt2_json''
         else if key = ''P3_JSON'' then ''temp_data/prompt3_json''
         else []),
       get_file_path = (\<lambda>key year company_code.
         if key = ''P1_JSON'' then os_path_join ''temp_data/prompt1_json'' (str_int year @ ''_'' @ company_code @ ''_p1.json'')
         else if key = ''NEWS_JSON'' then os_path_join ''temp_data/news_output'' (str_int year @ ''_'' @ company_code @ ''_news.json'')
         else if key = ''P2_JSON'' then os_path_join ''temp_data/prompt2_json'' (str_int year @ ''_'' @ company_code @ ''_p2.json'')
         else if key = ''P3_JSON'' then os_path_join ''temp_data/prompt3_json'' (str_int year @ ''_'' @ company_code @ ''_p3.json'')
         else [])\<rparr>"

definition valid_node :: node where
  "valid_node = \<lparr>content = Inr (JList [JDict [(''risk'', JInt 1)]]), remove_error = None\<rparr>"

definition pdf_node :: node where
  "pdf_node = \<lparr>content = Inl (OtherException ''UnicodeDecodeError''), remove_error = None\<rparr>"

definition fs_all :: filesystem where
  "fs_all =
     [(''temp_data/esgReport/2024_2330_TSMC.pdf'', pdf_node),
      (''temp_data/prompt1_json/2024_2330_p1.json'', valid_node),
      (''temp_data/news_output/2024_2330_news.json'', valid_node),
      (''temp_data/prompt2_json/2024_2330_p2.json'', valid_node),
      (''temp_data/prompt3_json/2024_2330_p3.json'', valid_node)]"

definition fs_no_news :: filesystem where
  "fs_no_news =
     [(''temp_data/esgReport/2024_2330_TSMC.pdf'', pdf_node),
      (''temp_data/prompt1_json/2024_2330_p1.json'', valid_node),
      (''temp_data/prompt2_json/2024_2330_p2.json'', valid_node),
      (''temp_data/prompt3_json/2024_2330_p3.json'', valid_node)]"

definition plan_summary :: "exn + resume_result \<Rightarrow> exn + string \<times> string list" where
  "plan_summary = map_sum id (\<lambda>r. (resume_from r, completed_stages r))"

definition fs_gap :: filesystem where
  "fs_gap = [(''temp_data/news_output/2024_2330_news.json'', valid_node)]"

definition corrupt_node :: node where
  "corrupt_node =
     \<lparr>content = Inl (JSONDecodeError ''Expecting value: line 1 column 1 (char 0)''),
      remove_error = None\<rparr>"

definition fs_corrupt :: filesystem where
  "fs_corrupt = [(''temp_data/prompt1_json/2024_2330_p1.json'', corrupt_node)]"

definition removable :: "filesystem \<Rightarrow> string \<Rightarrow> bool" where
  "removable fs p = (case map_of fs p of Some n \<Rightarrow> remove_error n = None | None \<Rightarrow> True)"

section \<open>app.py: the registry, the cleanup and the analysis run\<close>

text \<open>
  The state the run reads and writes: the files, the \<open>analysis_status\<close> column of the
  database (by \<open>esg_id\<close>), the module-level dictionary \<open>ACTIVE_PROCESSING\<close>, and the
  trace of what happened, in order.  The trace records every
  \<open>update_analysis_status\<close>, every call of a collaborator and the warning and error
  lines printed; the informational banners are left out.
\<close>

datatype collaborator =
    Download
  | WordCloud
  | Analyze
  | News
  | Verify
  | SourceCheck
  | Insert
  | Query
  | Scores

datatype log_line =
    Deleted string  \<comment> \<open>line 46, with the base name of the file\<close>
  | CannotDelete string string  \<comment> \<open>line 49: the path and \<open>str(e)\<close>\<close>
  | ThreadException string
      \<comment> \<open>the traceback \<open>threading.excepthook\<close> prints for an exception that leaves a
         thread's target\<close>
  | WordCloudFailed string  \<comment> \<open>line 495\<close>
  | NewsFailed "string option"  \<comment> \<open>line 522\<close>
  | NewsError string  \<comment> \<open>line 524\<close>
  | VerifyFailed "string option"  \<comment> \<open>line 552\<close>
  | VerifyError string  \<comment> \<open>line 554\<close>
  | SourceFailed "string option"  \<comment> \<open>line 585\<close>
  | SourceError string  \<comment> \<open>line 587\<close>
  | P3Missing string  \<comment> \<open>line 605\<close>

datatype event =
    StatusSet string string  \<comment> \<open>\<open>update_analysis_status(esg_id, status)\<close>\<close>
  | Called collaborator
  | Printed log_line

record state =
  files :: filesystem
  analysis_status :: "(string \<times> string) list"
  ACTIVE_PROCESSING :: "(string \<times> nat) list"
  trace :: "event list"

definition emit :: "event \<Rightarrow> state \<Rightarrow> state" where
  "emit ev s = s\<lparr>trace := trace s @ [ev]\<rparr>"

text \<open>
  \<open>update_analysis_status\<close> belongs to \<open>src.db_service\<close>, which is not among the
  source files; the specification gives it as \<open>setStatus(job_id, stage_or_terminal)\<close>
  with no failure result, and it is modelled as the write it names.
\<close>

definition update_analysis_status :: "string \<Rightarrow> string \<Rightarrow> state \<Rightarrow> state" where
  "update_analysis_status esg_id st s =
     emit (StatusSet esg_id st) (s\<lparr>analysis_status := AList.update esg_id st (analysis_status s)\<rparr>)"

text \<open>Lines 51-64.\<close>

definition mark_processing_start :: "string \<Rightarrow> nat \<Rightarrow> state \<Rightarrow> state" where
  "mark_processing_start esg_id now s =
     s\<lparr>ACTIVE_PROCESSING := AList.update esg_id now (ACTIVE_PROCESSING s)\<rparr>"

definition mark_processing_end :: "string \<Rightarrow> state \<Rightarrow> state" where
  "mark_processing_end esg_id s =
     (if map_of (ACTIVE_PROCESSING s) esg_id \<noteq> None
      then s\<lparr>ACTIVE_PROCESSING := AList.delete esg_id (ACTIVE_PROCESSING s)\<rparr>
      else s)"

definition is_actively_processing :: "string \<Rightarrow> state \<Rightarrow> bool" where
  "is_actively_processing esg_id s = (map_of (ACTIVE_PROCESSING s) esg_id \<noteq> None)"

text \<open>The response messages and the report file name, as UTF-8 bytes.\<close>

definition msg_download_failed :: string where
  \<comment> \<open>line 430: "download failed: "\<close>
  "msg_download_failed =
     [CHR 0xE4, CHR 0xB8, CHR 0x8B, CHR 0xE8, CHR 0xBC, CHR 0x89, CHR 0xE5, CHR 0xA4,
       CHR 0xB1, CHR 0xE6, CHR 0x95, CHR 0x97] @ '': ''"

definition msg_p3_missing_a :: string where
  \<comment> \<open>line 609, before the path: "analysis not finished: P3 JSON file not found ("\<close>
  "msg_p3_missing_a =
     [CHR 0xE5, CHR 0x88, CHR 0x86, CHR 0xE6, CHR 0x9E, CHR 0x90, CHR 0xE6, CHR 0xB5,
       CHR 0x81, CHR 0xE7, CHR 0xA8, CHR 0x8B, CHR 0xE6, CHR 0x9C, CHR 0xAA, CHR 0xE5,
       CHR 0xAE, CHR 0x8C, CHR 0xE6, CHR 0x88, CHR 0x90, CHR 0xEF, CHR 0xBC, CHR 0x9A,
       CHR 0xE6, CHR 0x89, CHR 0xBE, CHR 0xE4, CHR 0xB8, CHR 0x8D, CHR 0xE5, CHR 0x88,
       CHR 0xB0] @ '' P3 JSON '' @ [CHR 0xE6, CHR 0xAA, CHR 0x94, CHR 0xE6, CHR 0xA1,
       CHR 0x88] @ '' (''"

definition msg_p3_missing_b :: string where
  \<comment> \<open>line 609, after the path\<close>
  "msg_p3_missing_b =
     '')'' @ [CHR 0xE3, CHR 0x80, CHR 0x82, CHR 0xE8, CHR 0xAB, CHR 0x8B, CHR 0xE7,
       CHR 0xA2, CHR 0xBA, CHR 0xE8, CHR 0xAA, CHR 0x8D] @ '' Step 5 (AI '' @ [CHR 0xE9,
       CHR 0xA9, CHR 0x97, CHR 0xE8, CHR 0xAD, CHR 0x89, CHR 0xE8, CHR 0x88, CHR 0x87,
       CHR 0xE8, CHR 0xA9, CHR 0x95, CHR 0xE5, CHR 0x88, CHR 0x86, CHR 0xE8, CHR 0xAA,
       CHR 0xBF, CHR 0xE6, CHR 0x95, CHR 0xB4] @ '') '' @ [CHR 0xE5, CHR 0x92, CHR 0x8C]
       @ '' Step 6 ('' @ [CHR 0xE4, CHR 0xBE, CHR 0x86, CHR 0xE6, CHR 0xBA, CHR 0x90,
       CHR 0xE5, CHR 0x8F, CHR 0xAF, CHR 0xE9, CHR 0x9D, CHR 0xA0, CHR 0xE5, CHR 0xBA,
       CHR 0xA6, CHR 0xE9, CHR 0xA9, CHR 0x97, CHR 0xE8, CHR 0xAD, CHR 0x89] @ '') '' @
       [CHR 0xE5, CHR 0xB7, CHR 0xB2, CHR 0xE6, CHR 0x88, CHR 0x90, CHR 0xE5, CHR 0x8A,
       CHR 0x9F, CHR 0xE5, CHR 0x9F, CHR 0xB7, CHR 0xE8, CHR 0xA1, CHR 0x8C, CHR 0xE3,
       CHR 0x80, CHR 0x82]"

definition msg_insert_failed :: string where
  \<comment> \<open>line 630: "inserting the analysis results failed: "\<close>
  "msg_insert_failed =
     [CHR 0xE6, CHR 0x8F, CHR 0x92, CHR 0xE5, CHR 0x85, CHR 0xA5, CHR 0xE5, CHR 0x88,
       CHR 0x86, CHR 0xE6, CHR 0x9E, CHR 0x90, CHR 0xE7, CHR 0xB5, CHR 0x90, CHR 0xE6,
       CHR 0x9E, CHR 0x9C, CHR 0xE5, CHR 0xA4, CHR 0xB1, CHR 0xE6, CHR 0x95, CHR 0x97] @
       '': ''"

definition msg_done :: string where
  \<comment> \<open>line 667: "automatic fetch and analysis completed"\<close>
  "msg_done =
     [CHR 0xE8, CHR 0x87, CHR 0xAA, CHR 0xE5, CHR 0x8B, CHR 0x95, CHR 0xE6, CHR 0x8A,
       CHR 0x93, CHR 0xE5, CHR 0x8F, CHR 0x96, CHR 0xE8, CHR 0x88, CHR 0x87, CHR 0xE5,
       CHR 0x88, CHR 0x86, CHR 0xE6, CHR 0x9E, CHR 0x90, CHR 0xE5, CHR 0xAE, CHR 0x8C,
       CHR 0xE6, CHR 0x88, CHR 0x90]"

definition msg_query_failed :: string where
  \<comment> \<open>line 674: "analysis completed but the data query failed"\<close>
  "msg_query_failed =
     [CHR 0xE5, CHR 0x88, CHR 0x86, CHR 0xE6, CHR 0x9E, CHR 0x90, CHR 0xE5, CHR 0xAE,
       CHR 0x8C, CHR 0xE6, CHR 0x88, CHR 0x90, CHR 0xE4, CHR 0xBD, CHR 0x86, CHR 0xE8,
       CHR 0xB3, CHR 0x87, CHR 0xE6, CHR 0x96, CHR 0x99, CHR 0xE6, CHR 0x9F, CHR 0xA5,
       CHR 0xE8, CHR 0xA9, CHR 0xA2, CHR 0xE5, CHR 0xA4, CHR 0xB1, CHR 0xE6, CHR 0x95,
       CHR 0x97]"

definition msg_processing_error :: string where
  \<comment> \<open>line 685: "an error occurred while processing: "\<close>
  "msg_processing_error =
     [CHR 0xE8, CHR 0x99, CHR 0x95, CHR 0xE7, CHR 0x90, CHR 0x86, CHR 0xE9, CHR 0x81,
       CHR 0x8E, CHR 0xE7, CHR 0xA8, CHR 0x8B, CHR 0xE7, CHR 0x99, CHR 0xBC, CHR 0xE7,
       CHR 0x94, CHR 0x9F, CHR 0xE9, CHR 0x8C, CHR 0xAF, CHR 0xE8, CHR 0xAA, CHR 0xA4] @
       '': ''"

definition pdf_suffix :: string where
  \<comment> \<open>line 26: the fixed tail of the report file name\<close>
  "pdf_suffix =
     ''_'' @ [CHR 0xE6, CHR 0xB0, CHR 0xB8, CHR 0xE7, CHR 0xBA, CHR 0x8C, CHR 0xE5,
       CHR 0xA0, CHR 0xB1, CHR 0xE5, CHR 0x91, CHR 0x8A, CHR 0xE6, CHR 0x9B, CHR 0xB8] @
       ''.pdf''"

definition os_path_basename :: "string \<Rightarrow> string" where
  "os_path_basename p = rev (takeWhile (\<lambda>c. c \<noteq> CHR ''/'') (rev p))"

text \<open>\<open>cleanup_temp_files\<close>, lines 22-49.\<close>

definition file_targets :: "config \<Rightarrow> int \<Rightarrow> string \<Rightarrow> string \<Rightarrow> string list" where
  "file_targets cfg year company_code company_name =
     [os_path_join (PATHS cfg ''ESG_REPORTS'')
        (str_int year @ ''_'' @ company_code @ ''_'' @ company_name @ pdf_suffix),
      os_path_join (PATHS cfg ''P1_JSON'') (str_int year @ ''_'' @ company_code @ ''_p1.json''),
      os_path_join (PATHS cfg ''NEWS_OUTPUT'') (str_int year @ ''_'' @ company_code @ ''_news.json''),
      os_path_join (PATHS cfg ''P2_JSON'') (str_int year @ ''_'' @ company_code @ ''_p2.json''),
      os_path_join (PATHS cfg ''P3_JSON'') (str_int year @ ''_'' @ company_code @ ''_p3.json'')]"

text \<open>One turn of the loop: the \<open>try\<close> with its handler.\<close>

definition cleanup_one :: "string \<Rightarrow> state \<Rightarrow> state" where
  "cleanup_one file_path s =
     (if os_path_exists (files s) file_path then
        (case os_remove (files s) file_path of
           Inr fs' \<Rightarrow> emit (Printed (Deleted (os_path_basename file_path))) (s\<lparr>files := fs'\<rparr>)
         | Inl e \<Rightarrow> emit (Printed (CannotDelete file_path (exn_text e))) s)
      else s)"

definition cleanup_temp_files :: "config \<Rightarrow> int \<Rightarrow> string \<Rightarrow> string \<Rightarrow> state \<Rightarrow> state" where
  "cleanup_temp_files cfg year company_code company_name s =
     fold cleanup_one (file_targets cfg year company_code company_name) s"

text \<open>
  The collaborators of the run.  Those of \<open>src.crawler_esgReport\<close>,
  \<open>src.word_cloud\<close>, \<open>src.crawler_news\<close>, \<open>src.run_prompt2_gemini\<close>,
  \<open>src.db_service\<close> and \<open>src.calculate_esg\<close> are not among the source files, and
  \<open>analyze_esg_report\<close> and \<open>verify_evidence_sources\<close> call external services, so
  each is a parameter: what it returns or raises, and the files it leaves behind.
  A result dictionary of the three enrichment stages is read through its keys
  \<open>success\<close>, \<open>skipped\<close> and \<open>error\<close>; a \<open>KeyError\<close> while reading it is caught by
  the same handler as an exception of the call and counts as one.
\<close>

record soft_result =
  success :: bool
  skipped :: bool
  error :: "string option"

datatype wc_run =
    WcReturned soft_result
  | WcRaised exn
  | WcStillRunning  \<comment> \<open>\<open>join(timeout=120)\<close> came back first: the result is still \<open>None\<close>\<close>

record world =
  download_esg_report :: "int \<Rightarrow> string \<Rightarrow> filesystem \<Rightarrow> (exn + bool \<times> string) \<times> filesystem"
  generate_wordcloud :: "int \<Rightarrow> string \<Rightarrow> string \<Rightarrow> wc_run"
  analyze_esg_report ::
    "string \<Rightarrow> int \<Rightarrow> string \<Rightarrow> string \<Rightarrow> string \<Rightarrow> filesystem
       \<Rightarrow> (exn + (string \<times> string) list) \<times> filesystem"
  search_news_for_report :: "int \<Rightarrow> string \<Rightarrow> filesystem \<Rightarrow> (exn + soft_result) \<times> filesystem"
  verify_esg_with_news :: "int \<Rightarrow> string \<Rightarrow> filesystem \<Rightarrow> (exn + soft_result) \<times> filesystem"
  verify_evidence_sources :: "int \<Rightarrow> string \<Rightarrow> filesystem \<Rightarrow> (exn + soft_result) \<times> filesystem"
  insert_analysis_results ::
    "string \<Rightarrow> string \<Rightarrow> string \<Rightarrow> string \<Rightarrow> json \<Rightarrow> exn + bool \<times> string"
  query_company_data :: "int \<Rightarrow> string \<Rightarrow> exn + string"
    \<comment> \<open>the read-back of line 638: the \<open>status\<close> of the record, or the exception\<close>
  calculate_esg_scores :: "exn + json"
    \<comment> \<open>lines 641-659: the scores and the \<open>company_obj\<close> built from them\<close>

text \<open>The request: the locals of \<open>query_company\<close> the run reads.\<close>

record request =
  req_year :: int
  req_company_code :: string
  req_esg_id :: string
  req_company_name :: string  \<comment> \<open>\<open>report_info.get('company_name', '')\<close>\<close>
  req_industry :: string  \<comment> \<open>\<open>report_info.get('sector', '')\<close>\<close>
  req_now :: nat  \<comment> \<open>\<open>time.time()\<close> at \<open>mark_processing_start\<close>\<close>

record response =
  resp_status :: string
  resp_message :: string
  resp_data :: "json option"
  resp_esg_id :: string
  resp_code :: nat

text \<open>
  A block of the \<open>try\<close> goes on to the next statement with a value, returns a response,
  or raises.
\<close>

datatype 'a flow =
    Continue 'a state
  | Return response state
  | Raise exn state

text \<open>Stage 1, lines 418-439.\<close>

definition stage1_block :: "config \<Rightarrow> world \<Rightarrow> request \<Rightarrow> string \<Rightarrow> state \<Rightarrow> string flow" where
  "stage1_block cfg w rq resume_from_stage s =
     (if resume_from_stage \<in> set [''stage1''] then
        (let s1 = update_analysis_status (req_esg_id rq) ''stage1'' s
         in case download_esg_report w (req_year rq) (req_company_code rq) (files s1) of
              (res, fs') \<Rightarrow>
                (let s2 = emit (Called Download) (s1\<lparr>files := fs'\<rparr>)
                 in case res of
                      Inl e \<Rightarrow> Raise e s2
                    | Inr (download_success, pdf_path_or_error) \<Rightarrow>
                        if \<not> download_success then
                          Return
                            \<lparr>resp_status = ''failed'',
                             resp_message = msg_download_failed @ pdf_path_or_error,
                             resp_data = None,
                             resp_esg_id = req_esg_id rq,
                             resp_code = 500\<rparr>
                            (mark_processing_end (req_esg_id rq)
                               (update_analysis_status (req_esg_id rq) ''failed'' s2))
                        else Continue pdf_path_or_error s2))
      else
        Continue (snd (check_pdf_exists cfg (files s) (req_year rq) (req_company_code rq))) s)"

text \<open>
  Stage 2, lines 441-499.  Both sub-tasks run in threads of their own.
  \<open>run_wordcloud\<close> catches every exception of its call.  \<open>run_ai_analysis\<close>
  re-raises, but inside the thread: an exception that leaves a thread's target ends
  that thread and is printed by \<open>threading.excepthook\<close>; \<open>ai_thread.join()\<close> then
  returns as usual, and \<open>analysis_result\<close> still has the \<open>None\<close> it was given on
  line 447.  So the block never raises into the enclosing \<open>try\<close>, and it goes on with
  \<open>None\<close> when the analysis failed.
\<close>

definition log_wordcloud :: "wc_run \<Rightarrow> state \<Rightarrow> state" where
  "log_wordcloud wc s =
     (case wc of
        WcReturned r \<Rightarrow>
          if success r then s
          else emit (Printed (WordCloudFailed (case error r of Some e \<Rightarrow> e | None \<Rightarrow> ''None''))) s
      | WcRaised e \<Rightarrow> emit (Printed (WordCloudFailed (exn_text e))) s
      | WcStillRunning \<Rightarrow> emit (Printed (WordCloudFailed ''timeout'')) s)"

definition stage2_block ::
  "world \<Rightarrow> request \<Rightarrow> string \<Rightarrow> string \<Rightarrow> state \<Rightarrow> (string \<times> string) list option \<times> state" where
  "stage2_block w rq resume_from_stage pdf_path s =
     (if resume_from_stage \<in> set [''stage1'', ''stage2''] then
        (let s1 = update_analysis_status (req_esg_id rq) ''stage2'' s;
             wc = generate_wordcloud w (req_year rq) (req_company_code rq) pdf_path
         in case analyze_esg_report w pdf_path (req_year rq) (req_company_code rq)
                   (req_company_name rq) (req_industry rq) (files s1) of
              (res, fs') \<Rightarrow>
                (let s2 = emit (Called Analyze) (emit (Called WordCloud) (s1\<lparr>files := fs'\<rparr>))
                 in case res of
                      Inl e \<Rightarrow>
                        (None, log_wordcloud wc (emit (Printed (ThreadException (exn_text e))) s2))
                    | Inr analysis_result \<Rightarrow> (Some analysis_result, log_wordcloud wc s2)))
      else (Some [(''url'', [])], s))"

text \<open>Stages 3, 4 and 5, lines 501-589: a failure is printed and the run goes on.\<close>

definition stage3_block :: "world \<Rightarrow> request \<Rightarrow> string \<Rightarrow> state \<Rightarrow> state" where
  "stage3_block w rq resume_from_stage s =
     (if resume_from_stage \<in> set [''stage1'', ''stage2'', ''stage3''] then
        (let s1 = update_analysis_status (req_esg_id rq) ''stage3'' s
         in case search_news_for_report w (req_year rq) (req_company_code rq) (files s1) of
              (res, fs') \<Rightarrow>
                (let s2 = emit (Called News) (s1\<lparr>files := fs'\<rparr>)
                 in case res of
                      Inl e \<Rightarrow> emit (Printed (NewsError (exn_text e))) s2
                    | Inr news_result \<Rightarrow>
                        if success news_result then s2
                        else emit (Printed (NewsFailed (error news_result))) s2))
      else s)"

definition stage4_block :: "world \<Rightarrow> request \<Rightarrow> string \<Rightarrow> state \<Rightarrow> state" where
  "stage4_block w rq resume_from_stage s =
     (if resume_from_stage \<in> set [''stage1'', ''stage2'', ''stage3'', ''stage4''] then
        (let s1 = update_analysis_status (req_esg_id rq) ''stage4'' s
         in case verify_esg_with_news w (req_year rq) (req_company_code rq) (files s1) of
              (res, fs') \<Rightarrow>
                (let s2 = emit (Called Verify) (s1\<lparr>files := fs'\<rparr>)
                 in case res of
                      Inl e \<Rightarrow> emit (Printed (VerifyError (exn_text e))) s2
                    | Inr verify_result \<Rightarrow>
                        if success verify_result then s2
                        else emit (Printed (VerifyFailed (error verify_result))) s2))
      else s)"

definition stage5_block :: "world \<Rightarrow> request \<Rightarrow> string \<Rightarrow> state \<Rightarrow> state" where
  "stage5_block w rq resume_from_stage s =
     (if resume_from_stage \<in> set [''stage1'', ''stage2'', ''stage3'', ''stage4'', ''stage5''] then
        (let s1 = update_analysis_status (req_esg_id rq) ''stage5'' s
         in case verify_evidence_sources w (req_year rq) (req_company_code rq) (files s1) of
              (res, fs') \<Rightarrow>
                (let s2 = emit (Called SourceCheck) (s1\<lparr>files := fs'\<rparr>)
                 in case res of
                      Inl e \<Rightarrow> emit (Printed (SourceError (exn_text e))) s2
                    | Inr pplx_result \<Rightarrow>
                        if success pplx_result then s2
                        else emit (Printed (SourceFailed (error pplx_result))) s2))
      else s)"

text \<open>
  The read-back and the finalization, lines 634-676, reached when the insert
  succeeded.
\<close>

definition finalization :: "config \<Rightarrow> world \<Rightarrow> request \<Rightarrow> state \<Rightarrow> (exn + response) \<times> state" where
  "finalization cfg w rq s =
     (let s1 = update_analysis_status (req_esg_id rq) ''completed'' s;
          s2 = emit (Called Query) s1
      in case query_company_data w (req_year rq) (req_company_code rq) of
           Inl e \<Rightarrow> (Inl e, s2)
         | Inr final_status \<Rightarrow>
             if final_status = ''completed'' then
               (let s3 = emit (Called Scores) s2
                in case calculate_esg_scores w of
                     Inl e \<Rightarrow> (Inl e, s3)
                   | Inr company_obj \<Rightarrow>
                       (Inr \<lparr>resp_status = ''completed'',
                             resp_message = msg_done,
                             resp_data = Some company_obj,
                             resp_esg_id = req_esg_id rq,
                             resp_code = 200\<rparr>,
                        mark_processing_end (req_esg_id rq)
                          (cleanup_temp_files cfg (req_year rq) (req_company_code rq)
                             (req_company_name rq) s3)))
             else
               (Inr \<lparr>resp_status = ''error'',
                     resp_message = msg_query_failed,
                     resp_data = None,
                     resp_esg_id = req_esg_id rq,
                     resp_code = 500\<rparr>,
                s2))"

text \<open>\<open>len\<close> on a JSON value: a number, a boolean and \<open>None\<close> have none.\<close>

fun py_len :: "json \<Rightarrow> exn + nat" where
  "py_len (JList xs) = Inr (length xs)"
| "py_len (JDict kvs) = Inr (length kvs)"
| "py_len (JStr s) = Inr (length s)"
| "py_len other = Inl (OtherException ''TypeError: object has no len()'')"

definition dict_get :: "(string \<times> string) list \<Rightarrow> string \<Rightarrow> string \<Rightarrow> string" where
  "dict_get d k default_value = (case map_of d k of Some v \<Rightarrow> v | None \<Rightarrow> default_value)"

text \<open>
  Stage 6, lines 591-632.  \<open>analysis_result.get\<close> on \<open>None\<close> raises
  \<open>AttributeError\<close>.
\<close>

definition stage6_block ::
  "config \<Rightarrow> world \<Rightarrow> request \<Rightarrow> (string \<times> string) list option \<Rightarrow> state
     \<Rightarrow> (exn + response) \<times> state" where
  "stage6_block cfg w rq analysis_result s =
     (let s1 = update_analysis_status (req_esg_id rq) ''stage6'' s;
          p3_path = os_path_join (PATHS cfg ''P3_JSON'')
                      (str_int (req_year rq) @ ''_'' @ req_company_code rq @ ''_p3.json'')
      in if os_path_exists (files s1) p3_path then
           (case json_load (files s1) p3_path of
              Inl e \<Rightarrow> (Inl e, s1)
            | Inr final_analysis_items \<Rightarrow>
                (case py_len final_analysis_items of
                   Inl e \<Rightarrow> (Inl e, s1)
                 | Inr n \<Rightarrow>
                     (case analysis_result of
                        None \<Rightarrow>
                          (Inl (OtherException
                                  ''AttributeError: NoneType object has no attribute get''), s1)
                      | Some d \<Rightarrow>
                          (let report_url =
                                 dict_get d ''url''
                                   (''https://mops.twse.com.tw/mops/web/t100sb07_'' @
                                    str_int (req_year rq));
                               s2 = emit (Called Insert) s1
                           in case insert_analysis_results w (req_esg_id rq) (req_company_name rq)
                                     (req_industry rq) report_url final_analysis_items of
                                Inl e \<Rightarrow> (Inl e, s2)
                              | Inr (insert_success, insert_msg) \<Rightarrow>
                                  if \<not> insert_success then
                                    (Inr \<lparr>resp_status = ''failed'',
                                          resp_message = msg_insert_failed @ insert_msg,
                                          resp_data = None,
                                          resp_esg_id = req_esg_id rq,
                                          resp_code = 500\<rparr>,
                                     update_analysis_status (req_esg_id rq) ''failed'' s2)
                                  else finalization cfg w rq s2))))
         else
           (Inr \<lparr>resp_status = ''failed'',
                 resp_message = msg_p3_missing_a @ p3_path @ msg_p3_missing_b,
                 resp_data = None,
                 resp_esg_id = req_esg_id rq,
                 resp_code = 500\<rparr>,
            update_analysis_status (req_esg_id rq) ''failed''
              (emit (Printed (P3Missing p3_path)) s1)))"

text \<open>The body of the \<open>try\<close>, lines 418-676, and the run with its handler, 413-687.\<close>

definition try_body ::
  "config \<Rightarrow> world \<Rightarrow> request \<Rightarrow> string \<Rightarrow> state \<Rightarrow> (exn + response) \<times> state" where
  "try_body cfg w rq resume_from_stage s =
     (case stage1_block cfg w rq resume_from_stage s of
        Raise e s' \<Rightarrow> (Inl e, s')
      | Return r s' \<Rightarrow> (Inr r, s')
      | Continue pdf_path s1 \<Rightarrow>
          (case stage2_block w rq resume_from_stage pdf_path s1 of
             (analysis_result, s2) \<Rightarrow>
               stage6_block cfg w rq analysis_result
                 (stage5_block w rq resume_from_stage
                    (stage4_block w rq resume_from_stage
                       (stage3_block w rq resume_from_stage s2)))))"

definition run_analysis ::
  "config \<Rightarrow> world \<Rightarrow> request \<Rightarrow> string \<Rightarrow> state \<Rightarrow> response \<times> state" where
  "run_analysis cfg w rq resume_from_stage s =
     (case try_body cfg w rq resume_from_stage
             (mark_processing_start (req_esg_id rq) (req_now rq) s) of
        (Inr r, s') \<Rightarrow> (r, s')
      | (Inl e, s') \<Rightarrow>
          (\<lparr>resp_status = ''failed'',
            resp_message = msg_processing_error @ exn_text e,
            resp_data = None,
            resp_esg_id = req_esg_id rq,
            resp_code = 500\<rparr>,
           mark_processing_end (req_esg_id rq)
             (update_analysis_status (req_esg_id rq) ''failed'' s')))"

section \<open>Concrete runs\<close>

text \<open>
  A request for (2024, "2330") and collaborators that each leave their artifact behind,
  under the layout of \<open>repo_layout\<close>.  The other worlds differ from \<open>world_ok\<close> in
  one collaborator.
\<close>

definition request_2330 :: request where
  "request_2330 =
     \<lparr>req_year = 2024, req_company_code = ''2330'', req_esg_id = ''20242330'',
      req_company_name = ''TSMC'', req_industry = ''Semiconductor'', req_now = 1700000000\<rparr>"

definition state_fresh :: state where
  "state_fresh =
     \<lparr>files = [], analysis_status = [(''20242330'', ''processing'')],
      ACTIVE_PROCESSING = [], trace = []\<rparr>"

definition ok_result :: soft_result where
  "ok_result = \<lparr>success = True, skipped = False, error = None\<rparr>"

definition failed_result :: soft_result where
  "failed_result = \<lparr>success = False, skipped = False, error = Some ''no data''\<rparr>"

definition locked_node :: node where
  "locked_node =
     \<lparr>content = Inr (JList [JDict [(''risk'', JInt 1)]]),
      remove_error = Some ''PermissionError''\<rparr>"

definition pdf_2330 :: string where
  "pdf_2330 = ''temp_data/esgReport/2024_2330_TSMC'' @ pdf_suffix"

definition world_ok :: world where
  "world_ok =
     \<lparr>download_esg_report = (\<lambda>y c fs. (Inr (True, pdf_2330), AList.update pdf_2330 pdf_node fs)),
      generate_wordcloud = (\<lambda>y c p. WcReturned ok_result),
      analyze_esg_report = (\<lambda>p y c n i fs.
         (Inr [(''url'', ''https://mops.twse.com.tw/mops/web/t100sb07_2024'')],
          AList.update ''temp_data/prompt1_json/2024_2330_p1.json'' valid_node fs)),
      search_news_for_report = (\<lambda>y c fs.
         (Inr ok_result, AList.update ''temp_data/news_output/2024_2330_news.json'' valid_node fs)),
      verify_esg_with_news = (\<lambda>y c fs.
         (Inr ok_result, AList.update ''temp_data/prompt2_json/2024_2330_p2.json'' locked_node fs)),
      verify_evidence_sources = (\<lambda>y c fs.
         (Inr ok_result, AList.update ''temp_data/prompt3_json/2024_2330_p3.json'' valid_node fs)),
      insert_analysis_results = (\<lambda>i n s u items. Inr (True, ''ok'')),
      query_company_data = (\<lambda>y c. Inr ''completed''),
      calculate_esg_scores = Inr (JDict [(''id'', JStr ''20242330'')])\<rparr>"

definition world_download_fails :: world where
  "world_download_fails =
     world_ok\<lparr>download_esg_report := (\<lambda>y c fs. (Inr (False, ''HTTP 404''), fs))\<rparr>"

definition world_news_raises :: world where
  "world_news_raises =
     world_ok\<lparr>search_news_for_report := (\<lambda>y c fs. (Inl (OtherException ''ConnectionError''), fs))\<rparr>"

definition world_news_fails :: world where
  "world_news_fails =
     world_ok\<lparr>search_news_for_report := (\<lambda>y c fs. (Inr failed_result, fs))\<rparr>"

definition world_analysis_raises :: world where
  "world_analysis_raises =
     world_ok\<lparr>analyze_esg_report := (\<lambda>p y c n i fs.
        (Inl (OtherException ''RuntimeError: AI analysis failed''), fs))\<rparr>"

definition world_source_check_fails :: world where
  "world_source_check_fails =
     world_ok\<lparr>verify_evidence_sources := (\<lambda>y c fs. (Inr failed_result, fs))\<rparr>"

definition world_insert_fails :: world where
  "world_insert_fails =
     world_ok\<lparr>insert_analysis_results := (\<lambda>i n s u items. Inr (False, ''duplicate key''))\<rparr>"

definition soft_failed :: "exn + soft_result \<Rightarrow> bool" where
  "soft_failed res = (case res of Inl e \<Rightarrow> True | Inr r \<Rightarrow> \<not> success r)"

definition state_before_stage6 :: state where
  "state_before_stage6 =
     \<lparr>files =
        [(pdf_2330, pdf_node),
         (''temp_data/prompt1_json/2024_2330_p1.json'', valid_node),
         (''temp_data/news_output/2024_2330_news.json'', valid_node),
         (''temp_data/prompt2_json/2024_2330_p2.json'', locked_node),
         (''temp_data/prompt3_json/2024_2330_p3.json'', valid_node)],
      analysis_status = [(''20242330'', ''stage5'')],
      ACTIVE_PROCESSING = [(''20242330'', 1700000000)],
      trace = []\<rparr>"

lemma check_json_valid_returns: "\<exists>b m. check_json_valid fs p = Inr (b, m)"
  by (auto simp: check_json_valid_def split: sum.splits exn.splits)

lemma json_stage_returns:
  "\<exists>c m. json_stage fs p = Inr (c, if c then p else [], m)"
  using check_json_valid_returns [of fs p]
  by (auto simp: json_stage_def)

lemma check_stage_completion_returns:
  "\<exists>c p m. check_stage_completion cfg fs year company_code stage = Inr (c, p, m) \<and> (\<not> c \<longrightarrow> p = [])"
proof -
  have js: "\<And>q. \<exists>c p m. json_stage fs q = Inr (c, p, m) \<and> (\<not> c \<longrightarrow> p = [])"
    using json_stage_returns by (metis (full_types))
  show ?thesis
    unfolding check_stage_completion_def
    using js by (auto split: prod.splits)
qed

lemma stage6_not_complete: "\<not> reported_complete cfg fs year company_code ''stage6''"
  by (simp add: reported_complete_def check_stage_completion_def)

lemma check_loop_returns:
  "\<exists>r. check_loop cfg fs year company_code sts r0 = Inr r
       \<and> resume_from r = resume_from r0
       \<and> completed_stages r = completed_stages r0 @ filter (reported_complete cfg fs year company_code) sts"
proof (induction sts arbitrary: r0)
  case Nil
  then show ?case by simp
next
  case (Cons s sts)
  obtain c p m where chk: "check_stage_completion cfg fs year company_code s = Inr (c, p, m)"
    using check_stage_completion_returns by blast
  then have rc: "reported_complete cfg fs year company_code s = c"
    by (simp add: reported_complete_def)
  define r1 where "r1 = r0\<lparr>stage_details := AList.update s \<lparr>completed = c, path = p, msg = m\<rparr> (stage_details r0),
                    completed_stages := (if c then completed_stages r0 @ [s] else completed_stages r0)\<rparr>"
  have step: "check_loop cfg fs year company_code (s # sts) r0 = check_loop cfg fs year company_code sts r1"
    by (simp add: chk r1_def)
  have r1_resume: "resume_from r1 = resume_from r0"
    by (simp add: r1_def)
  have r1_completed: "completed_stages r1 = completed_stages r0 @ filter (reported_complete cfg fs year company_code) [s]"
    by (simp add: r1_def rc)
  from Cons.IH [of r1] obtain r where
    r: "check_loop cfg fs year company_code sts r1 = Inr r"
       "resume_from r = resume_from r1"
       "completed_stages r = completed_stages r1 @ filter (reported_complete cfg fs year company_code) sts"
    by blast
  have "completed_stages r = completed_stages r0 @ filter (reported_complete cfg fs year company_code) (s # sts)"
    using r(3) r1_completed by simp
  with r step r1_resume show ?case by simp
qed

lemma find_not_in_filter:
  "List.find (\<lambda>s. s \<notin> set (filter P xs)) xs = List.find (\<lambda>s. \<not> P s) xs"
  by (rule find_cong) auto

lemma check_loop_details:
  "check_loop cfg fs year company_code sts r0 = Inr r \<Longrightarrow>
   stage_details r =
     fold (\<lambda>s acc. AList.update s (detail_of cfg fs year company_code s) acc) sts (stage_details r0)"
proof (induction sts arbitrary: r0)
  case Nil
  then show ?case by simp
next
  case (Cons s sts)
  obtain c p m where chk: "check_stage_completion cfg fs year company_code s = Inr (c, p, m)"
    using check_stage_completion_returns by blast
  define r1 where "r1 = r0\<lparr>stage_details := AList.update s \<lparr>completed = c, path = p, msg = m\<rparr> (stage_details r0),
                    completed_stages := (if c then completed_stages r0 @ [s] else completed_stages r0)\<rparr>"
  have step: "check_loop cfg fs year company_code (s # sts) r0 = check_loop cfg fs year company_code sts r1"
    by (simp add: chk r1_def)
  have d: "stage_details r1 = AList.update s (detail_of cfg fs year company_code s) (stage_details r0)"
    by (simp add: r1_def detail_of_def chk)
  from Cons.prems step have "check_loop cfg fs year company_code sts r1 = Inr r" by simp
  from Cons.IH [OF this] d show ?case by simp
qed

lemma determine_resume_point_eq:
  "determine_resume_point cfg fs year company_code current_status =
     Inr \<lparr>resume_from =
            (case List.find (\<lambda>s. \<not> reported_complete cfg fs year company_code s) stages of
               Some s \<Rightarrow> s | None \<Rightarrow> ''stage6''),
          completed_stages = filter (reported_complete cfg fs year company_code) stages,
          stage_details = map (\<lambda>s. (s, detail_of cfg fs year company_code s)) stages\<rparr>"
proof -
  define r0 where "r0 = \<lparr>resume_from = ''stage1'', completed_stages = [], stage_details = []\<rparr>"
  obtain r where r: "check_loop cfg fs year company_code stages r0 = Inr r"
      "resume_from r = resume_from r0"
      "completed_stages r = completed_stages r0 @ filter (reported_complete cfg fs year company_code) stages"
    using check_loop_returns by blast
  have cs: "completed_stages r = filter (reported_complete cfg fs year company_code) stages"
    using r(3) by (simp add: r0_def)
  have "stage_details r =
     fold (\<lambda>s acc. AList.update s (detail_of cfg fs year company_code s) acc) stages []"
    using check_loop_details [OF r(1)] by (simp add: r0_def)
  then have sd: "stage_details r = map (\<lambda>s. (s, detail_of cfg fs year company_code s)) stages"
    by (simp add: stages_def)
  have fi: "first_incomplete stages (filter (reported_complete cfg fs year company_code) stages) =
            (case List.find (\<lambda>s. \<not> reported_complete cfg fs year company_code s) stages of
               Some s \<Rightarrow> s | None \<Rightarrow> ''stage6'')"
    unfolding first_incomplete_def find_not_in_filter ..
  have d: "determine_resume_point cfg fs year company_code current_status =
          Inr (r\<lparr>resume_from := first_incomplete stages (completed_stages r)\<rparr>)"
    using r(1) by (simp add: determine_resume_point_def r0_def)
  have e: "\<And>x. r\<lparr>resume_from := x\<rparr> =
     \<lparr>resume_from = x, completed_stages = completed_stages r, stage_details = stage_details r\<rparr>"
    by simp
  show ?thesis
    by (simp only: d e cs sd fi)
qed

lemma str_int_2024: "str_int 2024 = ''2024''"
  by code_simp

lemma layout_paths:
  "get_file_path repo_layout ''P1_JSON'' 2024 ''2330'' = ''temp_data/prompt1_json/2024_2330_p1.json''"
  "get_file_path repo_layout ''NEWS_JSON'' 2024 ''2330'' = ''temp_data/news_output/2024_2330_news.json''"
  "get_file_path repo_layout ''P2_JSON'' 2024 ''2330'' = ''temp_data/prompt2_json/2024_2330_p2.json''"
  "get_file_path repo_layout ''P3_JSON'' 2024 ''2330'' = ''temp_data/prompt3_json/2024_2330_p3.json''"
  "os_path_join (PATHS repo_layout ''ESG_REPORTS'') (str_int 2024 @ ''_'' @ ''2330'' @ ''_*.pdf'') = ''temp_data/esgReport/2024_2330_*.pdf''"
  by (simp_all add: repo_layout_def os_path_join_def str_int_2024)

lemma os_remove_news: "os_remove fs_all ''temp_data/news_output/2024_2330_news.json'' = Inr fs_no_news"
  by (simp add: os_remove_def fs_all_def fs_no_news_def valid_node_def)

lemma glob_all: "glob_glob fs_all ''temp_data/esgReport/2024_2330_*.pdf'' = [''temp_data/esgReport/2024_2330_TSMC.pdf'']"
  by (simp add: glob_glob_def fs_all_def)

lemma check_json_valid_unusable:
  "\<exists>m. check_json_valid fs p = Inr (\<not> artifact_unusable fs p, m) \<and> m \<noteq> []"
  by (auto simp: check_json_valid_def check_json_try_def json_load_def os_path_exists_def
        artifact_unusable_def msg_file_missing_def msg_json_empty_def msg_parse_failed_def
        msg_read_failed_def msg_valid_json_def
      split: option.splits sum.splits exn.splits json.splits)

lemma json_stage_unusable:
  "\<exists>m. json_stage fs p = Inr (\<not> artifact_unusable fs p, if artifact_unusable fs p then [] else p, m) \<and> m \<noteq> []"
  using check_json_valid_unusable [of fs p] by (auto simp: json_stage_def)

lemma reported_complete_json:
  "reported_complete cfg fs year company_code ''stage2'' = (\<not> artifact_unusable fs (get_file_path cfg ''P1_JSON'' year company_code))"
  "reported_complete cfg fs year company_code ''stage3'' = (\<not> artifact_unusable fs (get_file_path cfg ''NEWS_JSON'' year company_code))"
  "reported_complete cfg fs year company_code ''stage4'' = (\<not> artifact_unusable fs (get_file_path cfg ''P2_JSON'' year company_code))"
  "reported_complete cfg fs year company_code ''stage5'' = (\<not> artifact_unusable fs (get_file_path cfg ''P3_JSON'' year company_code))"
proof -
  have a: "\<And>q. (case json_stage fs q of Inl e \<Rightarrow> False | Inr (c, p, m) \<Rightarrow> c) = (\<not> artifact_unusable fs q)"
  proof -
    fix q
    obtain m where "json_stage fs q = Inr (\<not> artifact_unusable fs q, if artifact_unusable fs q then [] else q, m)"
      using json_stage_unusable by blast
    then show "(case json_stage fs q of Inl e \<Rightarrow> False | Inr (c, p, m) \<Rightarrow> c) = (\<not> artifact_unusable fs q)"
      by simp
  qed
  show "reported_complete cfg fs year company_code ''stage2'' = (\<not> artifact_unusable fs (get_file_path cfg ''P1_JSON'' year company_code))"
    by (simp add: reported_complete_def check_stage_completion_def a)
  show "reported_complete cfg fs year company_code ''stage3'' = (\<not> artifact_unusable fs (get_file_path cfg ''NEWS_JSON'' year company_code))"
    by (simp add: reported_complete_def check_stage_completion_def a)
  show "reported_complete cfg fs year company_code ''stage4'' = (\<not> artifact_unusable fs (get_file_path cfg ''P2_JSON'' year company_code))"
    by (simp add: reported_complete_def check_stage_completion_def a)
  show "reported_complete cfg fs year company_code ''stage5'' = (\<not> artifact_unusable fs (get_file_path cfg ''P3_JSON'' year company_code))"
    by (simp add: reported_complete_def check_stage_completion_def a)
qed

lemma reported_complete_pdf:
  "reported_complete cfg fs year company_code ''stage1'' =
     (glob_glob fs (os_path_join (PATHS cfg ''ESG_REPORTS'') (str_int year @ ''_'' @ company_code @ ''_*.pdf'')) \<noteq> [])"
  by (simp add: reported_complete_def check_stage_completion_def check_pdf_exists_def Let_def
      split: list.splits)

lemma glob_no_news: "glob_glob fs_no_news ''temp_data/esgReport/2024_2330_*.pdf'' = [''temp_data/esgReport/2024_2330_TSMC.pdf'']"
  by (simp add: glob_glob_def fs_no_news_def)

lemma rc_all_pdf:
  "reported_complete repo_layout fs_all 2024 ''2330'' ''stage1''"
  unfolding reported_complete_pdf layout_paths glob_all by simp

lemma rc_all:
  "reported_complete repo_layout fs_all 2024 ''2330'' ''stage2''"
  "reported_complete repo_layout fs_all 2024 ''2330'' ''stage3''"
  "reported_complete repo_layout fs_all 2024 ''2330'' ''stage4''"
  "reported_complete repo_layout fs_all 2024 ''2330'' ''stage5''"
  by (simp_all add: reported_complete_json layout_paths
        artifact_unusable_def fs_all_def valid_node_def)

lemma rc_no_news_pdf:
  "reported_complete repo_layout fs_no_news 2024 ''2330'' ''stage1''"
  unfolding reported_complete_pdf layout_paths glob_no_news by simp

lemma rc_no_news:
  "reported_complete repo_layout fs_no_news 2024 ''2330'' ''stage2''"
  "\<not> reported_complete repo_layout fs_no_news 2024 ''2330'' ''stage3''"
  "reported_complete repo_layout fs_no_news 2024 ''2330'' ''stage4''"
  "reported_complete repo_layout fs_no_news 2024 ''2330'' ''stage5''"
  by (simp_all add: reported_complete_json layout_paths
        artifact_unusable_def fs_no_news_def valid_node_def)

lemma plan_summary_eq:
  "plan_summary (determine_resume_point cfg fs year company_code current_status) =
     Inr (case List.find (\<lambda>s. \<not> reported_complete cfg fs year company_code s) stages of
               Some s \<Rightarrow> s | None \<Rightarrow> ''stage6'',
          filter (reported_complete cfg fs year company_code) stages)"
  by (simp add: plan_summary_def determine_resume_point_eq)

lemma first_incomplete_index:
  "\<exists>k<length stages.
      (case List.find (\<lambda>s. \<not> P s) stages of Some s \<Rightarrow> s | None \<Rightarrow> ''stage6'') = stages ! k
      \<and> (\<not> P ''stage6'' \<longrightarrow> \<not> P (stages ! k))
      \<and> (\<forall>h<k. P (stages ! h))"
proof (cases "List.find (\<lambda>s. \<not> P s) stages")
  case None
  then have all: "\<forall>s\<in>set stages. P s"
    by (auto simp: find_None_iff)
  have len: "length stages = 6"
    by (simp add: stages_def)
  have "\<forall>h<5. P (stages ! h)"
  proof (intro allI impI)
    fix h :: nat
    assume "h < 5"
    then have "stages ! h \<in> set stages"
      using len by (intro nth_mem) simp
    then show "P (stages ! h)"
      using all by blast
  qed
  moreover have "stages ! 5 = ''stage6''" "P ''stage6''" "(5::nat) < length stages"
    using all by (simp_all add: stages_def)
  ultimately show ?thesis
    using None by (intro exI [of _ 5]) simp
next
  case (Some s)
  then obtain k where "k < length stages" "\<not> P (stages ! k)" "s = stages ! k" "\<forall>h<k. P (stages ! h)"
    by (auto simp: find_Some_iff)
  then show ?thesis
    using Some by (intro exI [of _ k]) simp
qed


lemma check_json_valid_cases:
  "\<not> os_path_exists fs p \<longrightarrow> check_json_valid fs p = Inr (False, msg_file_missing @ p)"
  "os_path_exists fs p \<and> json_load fs p = Inl (JSONDecodeError e)
     \<longrightarrow> check_json_valid fs p = Inr (False, msg_parse_failed @ e)"
  "os_path_exists fs p \<and> json_load fs p = Inl (OtherException e)
     \<longrightarrow> check_json_valid fs p = Inr (False, msg_read_failed @ e)"
  "os_path_exists fs p \<and> (json_load fs p = Inr (JList []) \<or> json_load fs p = Inr (JDict []))
     \<longrightarrow> check_json_valid fs p = Inr (False, msg_json_empty)"
  by (auto simp: check_json_valid_def check_json_try_def)

section \<open>Facts about the run\<close>

lemma registry_released:
  "map_of (ACTIVE_PROCESSING (mark_processing_end esg_id s)) esg_id = None"
  by (simp add: mark_processing_end_def AList.delete_conv')

lemmas run_defs =
  run_analysis_def try_body_def stage1_block_def stage2_block_def stage3_block_def
  stage4_block_def stage5_block_def stage6_block_def finalization_def
  update_analysis_status_def emit_def mark_processing_start_def mark_processing_end_def
  log_wordcloud_def dict_get_def Let_def

lemmas scenario_defs =
  request_2330_def state_fresh_def world_ok_def ok_result_def failed_result_def
  pdf_2330_def pdf_node_def valid_node_def locked_node_def repo_layout_def

lemma os_remove_gone:
  "os_remove fs p = Inr fs' \<Longrightarrow> \<not> os_path_exists fs' p"
  by (auto simp: os_remove_def os_path_exists_def AList.delete_conv' split: option.splits)

lemma os_remove_shrinks:
  "os_remove fs p = Inr fs' \<Longrightarrow> os_path_exists fs' q \<Longrightarrow> os_path_exists fs q"
  by (auto simp: os_remove_def os_path_exists_def AList.delete_conv' split: option.splits if_splits)

lemma os_remove_keeps_nodes:
  "os_remove fs p = Inr fs' \<Longrightarrow> map_of fs' q = Some n \<Longrightarrow> map_of fs q = Some n"
  by (auto simp: os_remove_def AList.delete_conv' split: option.splits if_splits)

lemma os_remove_raises:
  "os_remove fs p = Inl e \<Longrightarrow> os_path_exists fs p \<Longrightarrow>
     \<exists>n. map_of fs p = Some n \<and> remove_error n \<noteq> None"
  by (auto simp: os_remove_def os_path_exists_def split: option.splits)

lemma cleanup_one_other_fields:
  "analysis_status (cleanup_one p s) = analysis_status s"
  "ACTIVE_PROCESSING (cleanup_one p s) = ACTIVE_PROCESSING s"
  by (auto simp: cleanup_one_def emit_def split: sum.splits)

lemma cleanup_one_trace:
  "\<exists>t. trace (cleanup_one p s) = trace s @ t"
  by (auto simp: cleanup_one_def emit_def split: sum.splits)

lemma cleanup_one_shrinks:
  "os_path_exists (files (cleanup_one p s)) q \<Longrightarrow> os_path_exists (files s) q"
  by (auto simp: cleanup_one_def emit_def split: sum.splits if_splits dest: os_remove_shrinks)

lemma cleanup_one_removable:
  "removable (files s) q \<Longrightarrow> removable (files (cleanup_one p s)) q"
  by (auto simp: cleanup_one_def emit_def removable_def
      split: sum.splits if_splits option.splits dest: os_remove_keeps_nodes)

lemma cleanup_one_done:
  "\<not> os_path_exists (files (cleanup_one p s)) p
   \<or> (\<not> removable (files s) p \<and> (\<exists>e. Printed (CannotDelete p e) \<in> set (trace (cleanup_one p s))))"
proof (cases "os_path_exists (files s) p")
  case False
  then show ?thesis by (simp add: cleanup_one_def)
next
  case True
  show ?thesis
  proof (cases "os_remove (files s) p")
    case (Inr fs')
    with True os_remove_gone [OF Inr] show ?thesis
      by (simp add: cleanup_one_def emit_def)
  next
    case (Inl e)
    from os_remove_raises [OF Inl True] have "\<not> removable (files s) p"
      by (auto simp: removable_def)
    with True Inl show ?thesis
      by (auto simp: cleanup_one_def emit_def)
  qed
qed

lemma fold_cleanup_other_fields:
  "analysis_status (fold cleanup_one ps s) = analysis_status s"
  "ACTIVE_PROCESSING (fold cleanup_one ps s) = ACTIVE_PROCESSING s"
  by (induction ps arbitrary: s) (simp_all add: cleanup_one_other_fields)

lemma fold_cleanup_trace:
  "\<exists>t. trace (fold cleanup_one ps s) = trace s @ t"
proof (induction ps arbitrary: s)
  case Nil
  then show ?case by simp
next
  case (Cons p ps)
  obtain t1 where t1: "trace (cleanup_one p s) = trace s @ t1"
    using cleanup_one_trace by blast
  obtain t2 where "trace (fold cleanup_one ps (cleanup_one p s)) = trace (cleanup_one p s) @ t2"
    using Cons.IH by blast
  with t1 show ?case by simp
qed

lemma fold_cleanup_shrinks:
  "os_path_exists (files (fold cleanup_one ps s)) q \<Longrightarrow> os_path_exists (files s) q"
proof (induction ps arbitrary: s)
  case Nil
  then show ?case by simp
next
  case (Cons p ps)
  then have "os_path_exists (files (cleanup_one p s)) q" by simp
  then show ?case by (rule cleanup_one_shrinks)
qed

lemma fold_cleanup_done:
  "p \<in> set ps \<Longrightarrow>
     \<not> os_path_exists (files (fold cleanup_one ps s)) p
     \<or> (\<not> removable (files s) p
        \<and> (\<exists>e. Printed (CannotDelete p e) \<in> set (trace (fold cleanup_one ps s))))"
proof (induction ps arbitrary: s)
  case Nil
  then show ?case by simp
next
  case (Cons q ps)
  let ?s1 = "cleanup_one q s"
  show ?case
  proof (cases "p \<in> set ps")
    case True
    from Cons.IH [OF True, of ?s1] cleanup_one_removable [of s p q]
    show ?thesis by auto
  next
    case False
    with Cons.prems have pq: "p = q" by simp
    obtain t where t: "trace (fold cleanup_one ps ?s1) = trace ?s1 @ t"
      using fold_cleanup_trace by blast
    from cleanup_one_done [of p s] show ?thesis
    proof
      assume "\<not> os_path_exists (files (cleanup_one p s)) p"
      then have "\<not> os_path_exists (files (fold cleanup_one ps ?s1)) p"
        using fold_cleanup_shrinks pq by blast
      then show ?thesis by simp
    next
      assume "\<not> removable (files s) p
          \<and> (\<exists>e. Printed (CannotDelete p e) \<in> set (trace (cleanup_one p s)))"
      then show ?thesis using t pq by auto
    qed
  qed
qed

lemma finalization_completed:
  assumes q: "query_company_data w (req_year rq) (req_company_code rq) = Inr ''completed''"
    and sc: "calculate_esg_scores w = Inr company_obj"
  shows "finalization cfg w rq s =
     (Inr \<lparr>resp_status = ''completed'', resp_message = msg_done, resp_data = Some company_obj,
           resp_esg_id = req_esg_id rq, resp_code = 200\<rparr>,
      mark_processing_end (req_esg_id rq)
        (cleanup_temp_files cfg (req_year rq) (req_company_code rq) (req_company_name rq)
           (emit (Called Scores) (emit (Called Query)
              (update_analysis_status (req_esg_id rq) ''completed'' s)))))"
  by (simp add: finalization_def Let_def q sc)

lemma targets_2330:
  "file_targets repo_layout 2024 ''2330'' ''TSMC'' =
     [pdf_2330,
      ''temp_data/prompt1_json/2024_2330_p1.json'',
      ''temp_data/news_output/2024_2330_news.json'',
      ''temp_data/prompt2_json/2024_2330_p2.json'',
      ''temp_data/prompt3_json/2024_2330_p3.json'']"
  by (simp add: file_targets_def repo_layout_def os_path_join_def str_int_2024 pdf_2330_def)

lemma layout_dirs:
  "PATHS repo_layout ''ESG_REPORTS'' = ''temp_data/esgReport''"
  "PATHS repo_layout ''P1_JSON'' = ''temp_data/prompt1_json''"
  "PATHS repo_layout ''NEWS_OUTPUT'' = ''temp_data/news_output''"
  "PATHS repo_layout ''P2_JSON'' = ''temp_data/prompt2_json''"
  "PATHS repo_layout ''P3_JSON'' = ''temp_data/prompt3_json''"
  by (simp_all add: repo_layout_def)

lemma cleanup_other_fields:
  "analysis_status (cleanup_temp_files cfg y c n s) = analysis_status s"
  "ACTIVE_PROCESSING (cleanup_temp_files cfg y c n s) = ACTIVE_PROCESSING s"
  by (simp_all add: cleanup_temp_files_def fold_cleanup_other_fields)

lemma emit_trace: "trace (emit ev s) = trace s @ [ev]"
  by (simp add: emit_def)

lemma update_status_trace:
  "trace (update_analysis_status i st s) = trace s @ [StatusSet i st]"
  by (simp add: update_analysis_status_def emit_def)

lemma update_status_files: "files (update_analysis_status i st s) = files s"
  by (simp add: update_analysis_status_def emit_def)

lemma mark_end_trace: "trace (mark_processing_end i s) = trace s"
  by (simp add: mark_processing_end_def)

lemma mark_start_trace: "trace (mark_processing_start i n s) = trace s"
  by (simp add: mark_processing_start_def)

lemma mark_start_files: "files (mark_processing_start i n s) = files s"
  by (simp add: mark_processing_start_def)

lemma log_wordcloud_trace:
  "\<exists>t. trace (log_wordcloud wc s) = trace s @ t \<and> StatusSet i ''failed'' \<notin> set t"
  by (cases wc) (auto simp: log_wordcloud_def emit_def)

lemma stage1_continues:
  assumes "rf = ''stage1'' \<longrightarrow>
      (\<forall>fs. \<exists>p fs'. download_esg_report w (req_year rq) (req_company_code rq) fs = (Inr (True, p), fs'))"
  shows "\<exists>p s1 t. stage1_block cfg w rq rf s = Continue p s1
      \<and> trace s1 = trace s @ t \<and> StatusSet (req_esg_id rq) ''failed'' \<notin> set t"
proof (cases "rf = ''stage1''")
  case True
  with assms obtain p fs' where
    "download_esg_report w (req_year rq) (req_company_code rq)
       (files (update_analysis_status (req_esg_id rq) ''stage1'' s)) = (Inr (True, p), fs')"
    by blast
  then have "stage1_block cfg w rq rf s =
      Continue p (emit (Called Download)
        ((update_analysis_status (req_esg_id rq) ''stage1'' s)\<lparr>files := fs'\<rparr>))"
    using True by (simp add: stage1_block_def Let_def)
  moreover have "trace (emit (Called Download)
        ((update_analysis_status (req_esg_id rq) ''stage1'' s)\<lparr>files := fs'\<rparr>)) =
      trace s @ [StatusSet (req_esg_id rq) ''stage1'', Called Download]"
    by (simp add: emit_def update_analysis_status_def)
  ultimately show ?thesis by auto
next
  case False
  then have "stage1_block cfg w rq rf s =
      Continue (snd (check_pdf_exists cfg (files s) (req_year rq) (req_company_code rq))) s"
    by (simp add: stage1_block_def)
  then show ?thesis by auto
qed

lemma stage2_trace:
  "\<exists>a s2 t. stage2_block w rq rf p s = (a, s2)
      \<and> trace s2 = trace s @ t \<and> StatusSet (req_esg_id rq) ''failed'' \<notin> set t"
proof (cases "rf \<in> set [''stage1'', ''stage2'']")
  case False
  then have "stage2_block w rq rf p s = (Some [(''url'', [])], s)"
    by (simp add: stage2_block_def)
  then show ?thesis by auto
next
  case True
  define s1 where "s1 = update_analysis_status (req_esg_id rq) ''stage2'' s"
  define wc where "wc = generate_wordcloud w (req_year rq) (req_company_code rq) p"
  obtain res fs' where an: "analyze_esg_report w p (req_year rq) (req_company_code rq)
                   (req_company_name rq) (req_industry rq) (files s1) = (res, fs')"
    by (cases "analyze_esg_report w p (req_year rq) (req_company_code rq)
                   (req_company_name rq) (req_industry rq) (files s1)") auto
  define s2 where "s2 = emit (Called Analyze) (emit (Called WordCloud) (s1\<lparr>files := fs'\<rparr>))"
  have t2: "trace s2 = trace s @ [StatusSet (req_esg_id rq) ''stage2'', Called WordCloud, Called Analyze]"
    by (simp add: s2_def s1_def emit_def update_analysis_status_def)
  show ?thesis
  proof (cases res)
    case (Inl e)
    define s3 where "s3 = emit (Printed (ThreadException (exn_text e))) s2"
    have "stage2_block w rq rf p s = (None, log_wordcloud wc s3)"
      using True an Inl
      by (simp add: stage2_block_def Let_def s1_def [symmetric] wc_def [symmetric] s2_def s3_def)
    moreover obtain t where "trace (log_wordcloud wc s3) = trace s3 @ t"
        "StatusSet (req_esg_id rq) ''failed'' \<notin> set t"
      using log_wordcloud_trace by blast
    moreover have "trace s3 = trace s2 @ [Printed (ThreadException (exn_text e))]"
      by (simp add: s3_def emit_def)
    ultimately show ?thesis using t2 by auto
  next
    case (Inr a)
    have "stage2_block w rq rf p s = (Some a, log_wordcloud wc s2)"
      using True an Inr
      by (simp add: stage2_block_def Let_def s1_def [symmetric] wc_def [symmetric] s2_def)
    moreover obtain t where "trace (log_wordcloud wc s2) = trace s2 @ t"
        "StatusSet (req_esg_id rq) ''failed'' \<notin> set t"
      using log_wordcloud_trace by blast
    ultimately show ?thesis using t2 by auto
  qed
qed


lemma stage3_failure_trace:
  assumes rf: "rf \<in> set [''stage1'', ''stage2'', ''stage3'']"
    and news: "\<forall>fs. soft_failed (fst (search_news_for_report w (req_year rq) (req_company_code rq) fs))"
  shows "\<exists>warning. trace (stage3_block w rq rf s) =
        trace s @ [StatusSet (req_esg_id rq) ''stage3'', Called News, Printed warning]
      \<and> ((\<exists>e. warning = NewsError e) \<or> (\<exists>e. warning = NewsFailed e))
      \<and> map_of (analysis_status (stage3_block w rq rf s)) (req_esg_id rq) = Some ''stage3''"
proof -
  define s1 where "s1 = update_analysis_status (req_esg_id rq) ''stage3'' s"
  obtain res fs' where call: "search_news_for_report w (req_year rq) (req_company_code rq) (files s1) = (res, fs')"
    by (cases "search_news_for_report w (req_year rq) (req_company_code rq) (files s1)") auto
  define s2 where "s2 = emit (Called News) (s1\<lparr>files := fs'\<rparr>)"
  have t2: "trace s2 = trace s @ [StatusSet (req_esg_id rq) ''stage3'', Called News]"
    by (simp add: s2_def s1_def emit_def update_analysis_status_def)
  have st2: "map_of (analysis_status s2) (req_esg_id rq) = Some ''stage3''"
    by (simp add: s2_def s1_def emit_def update_analysis_status_def AList.update_conv')
  from news call have failed: "soft_failed res"
    by (metis fst_conv)
  show ?thesis
  proof (cases res)
    case (Inl e)
    have "stage3_block w rq rf s = emit (Printed (NewsError (exn_text e))) s2"
      using rf call Inl by (simp add: stage3_block_def Let_def s1_def [symmetric] s2_def)
    then show ?thesis using t2 st2 by (auto simp: emit_def)
  next
    case (Inr r)
    with failed have "\<not> success r" by (simp add: soft_failed_def)
    then have "stage3_block w rq rf s = emit (Printed (NewsFailed (error r))) s2"
      using rf call Inr by (simp add: stage3_block_def Let_def s1_def [symmetric] s2_def)
    then show ?thesis using t2 st2 by (auto simp: emit_def)
  qed
qed

lemma stage4_trace:
  assumes rf: "rf \<in> set [''stage1'', ''stage2'', ''stage3'']"
  shows "\<exists>t. trace (stage4_block w rq rf s) =
        trace s @ [StatusSet (req_esg_id rq) ''stage4'', Called Verify] @ t"
proof -
  define s1 where "s1 = update_analysis_status (req_esg_id rq) ''stage4'' s"
  obtain res fs' where call: "verify_esg_with_news w (req_year rq) (req_company_code rq) (files s1) = (res, fs')"
    by (cases "verify_esg_with_news w (req_year rq) (req_company_code rq) (files s1)") auto
  define s2 where "s2 = emit (Called Verify) (s1\<lparr>files := fs'\<rparr>)"
  have t2: "trace s2 = trace s @ [StatusSet (req_esg_id rq) ''stage4'', Called Verify]"
    by (simp add: s2_def s1_def emit_def update_analysis_status_def)
  have in4: "rf \<in> set [''stage1'', ''stage2'', ''stage3'', ''stage4'']"
    using rf by auto
  have "stage4_block w rq rf s =
      (case res of
         Inl e \<Rightarrow> emit (Printed (VerifyError (exn_text e))) s2
       | Inr r \<Rightarrow> if success r then s2 else emit (Printed (VerifyFailed (error r))) s2)"
    using in4 call unfolding stage4_block_def Let_def s1_def [symmetric] s2_def
    by (simp del: set_simps)
  then show ?thesis using t2 by (cases res) (auto simp: emit_def)
qed

lemma stage5_trace:
  "\<exists>t. trace (stage5_block w rq rf s) = trace s @ t"
proof (cases "rf \<in> set [''stage1'', ''stage2'', ''stage3'', ''stage4'', ''stage5'']")
  case False
  then have "stage5_block w rq rf s = s"
    unfolding stage5_block_def by (simp del: set_simps)
  then show ?thesis by simp
next
  case True
  define s1 where "s1 = update_analysis_status (req_esg_id rq) ''stage5'' s"
  obtain res fs' where call: "verify_evidence_sources w (req_year rq) (req_company_code rq) (files s1) = (res, fs')"
    by (cases "verify_evidence_sources w (req_year rq) (req_company_code rq) (files s1)") auto
  define s2 where "s2 = emit (Called SourceCheck) (s1\<lparr>files := fs'\<rparr>)"
  have t2: "trace s2 = trace s @ [StatusSet (req_esg_id rq) ''stage5'', Called SourceCheck]"
    by (simp add: s2_def s1_def emit_def update_analysis_status_def)
  have "stage5_block w rq rf s =
      (case res of
         Inl e \<Rightarrow> emit (Printed (SourceError (exn_text e))) s2
       | Inr r \<Rightarrow> if success r then s2 else emit (Printed (SourceFailed (error r))) s2)"
    using True call unfolding stage5_block_def Let_def s1_def [symmetric] s2_def
    by (simp del: set_simps)
  then show ?thesis using t2 by (cases res) (auto simp: emit_def)
qed

lemma cleanup_trace:
  "\<exists>t. trace (cleanup_temp_files cfg y c n s) = trace s @ t"
  by (simp add: cleanup_temp_files_def fold_cleanup_trace)

lemma finalization_trace:
  "\<exists>t. trace (snd (finalization cfg w rq s)) = trace s @ t"
proof -
  define s2 where "s2 = emit (Called Query) (update_analysis_status (req_esg_id rq) ''completed'' s)"
  define s3 where "s3 = emit (Called Scores) s2"
  have t2: "trace s2 = trace s @ [StatusSet (req_esg_id rq) ''completed'', Called Query]"
    by (simp add: s2_def emit_def update_analysis_status_def)
  have t3: "trace s3 = trace s2 @ [Called Scores]"
    by (simp add: s3_def emit_def)
  obtain t where t: "trace (cleanup_temp_files cfg (req_year rq) (req_company_code rq)
                             (req_company_name rq) s3) = trace s3 @ t"
    using cleanup_trace by blast
  have "snd (finalization cfg w rq s) = s2 \<or> snd (finalization cfg w rq s) = s3
      \<or> snd (finalization cfg w rq s) =
          mark_processing_end (req_esg_id rq)
            (cleanup_temp_files cfg (req_year rq) (req_company_code rq) (req_company_name rq) s3)"
    unfolding finalization_def Let_def s2_def [symmetric] s3_def [symmetric]
    by (simp split: sum.splits)
  then show ?thesis
    using t2 t3 t by (auto simp: mark_end_trace)
qed


lemma stage6_trace:
  "\<exists>t. trace (snd (stage6_block cfg w rq a s)) = trace s @ t"
proof -
  let ?id = "req_esg_id rq"
  define s1 where "s1 = update_analysis_status ?id ''stage6'' s"
  define s2 where "s2 = emit (Called Insert) s1"
  define p3 where "p3 = os_path_join (PATHS cfg ''P3_JSON'')
                      (str_int (req_year rq) @ ''_'' @ req_company_code rq @ ''_p3.json'')"
  have t1: "trace s1 = trace s @ [StatusSet ?id ''stage6'']"
    by (simp add: s1_def update_status_trace)
  have t2: "trace s2 = trace s1 @ [Called Insert]"
    by (simp add: s2_def emit_trace)
  obtain tf where tf: "trace (snd (finalization cfg w rq s2)) = trace s2 @ tf"
    using finalization_trace by blast
  have "snd (stage6_block cfg w rq a s) = s1 \<or> snd (stage6_block cfg w rq a s) = s2
      \<or> snd (stage6_block cfg w rq a s) = update_analysis_status ?id ''failed'' s2
      \<or> snd (stage6_block cfg w rq a s) = snd (finalization cfg w rq s2)
      \<or> snd (stage6_block cfg w rq a s) =
           update_analysis_status ?id ''failed'' (emit (Printed (P3Missing p3)) s1)"
    unfolding stage6_block_def Let_def s1_def [symmetric] s2_def [symmetric] p3_def [symmetric]
    by (simp split: sum.splits option.splits prod.splits)
  then show ?thesis
    using t1 t2 tf by (auto simp: update_status_trace emit_trace)
qed

lemmas eval_defs =
  run_defs request_2330_def state_fresh_def world_ok_def ok_result_def failed_result_def
  cleanup_other_fields os_path_exists_def json_load_def valid_node_def locked_node_def
  pdf_node_def layout_dirs os_path_join_def str_int_2024 pdf_2330_def

lemma news_down_runs_complete:
  "resp_status (fst (run_analysis repo_layout world_news_raises request_2330 ''stage1''
       state_fresh)) = ''completed''"
  "map_of (analysis_status (snd (run_analysis repo_layout world_news_raises request_2330
       ''stage1'' state_fresh))) ''20242330'' = Some ''completed''"
  "resp_status (fst (run_analysis repo_layout world_news_fails request_2330 ''stage1''
       state_fresh)) = ''completed''"
  "map_of (analysis_status (snd (run_analysis repo_layout world_news_fails request_2330
       ''stage1'' state_fresh))) ''20242330'' = Some ''completed''"
  by (simp_all add: eval_defs world_news_raises_def world_news_fails_def)

section \<open>Claims about the resume planner\<close>

text \<open>
  Claim C4, second half as the code has it.  For the job (2024, "2330") with the PDF and
  the four JSON artifacts present and valid, \<open>determine_resume_point\<close> returns
  \<open>resume_from = stage6\<close> (stage6 is never reported complete by the file check).
  After the stage3 artifact alone is removed, it returns \<open>resume_from = stage3\<close>, and
  \<open>completed_stages\<close> lists every stage whose own artifact is valid: stage1, stage2,
  stage4 and stage5.
\<close>

theorem plan_2024_2330_all_then_stage3_deleted:
  "plan_summary (determine_resume_point repo_layout fs_all 2024 ''2330'' current_status) =
     Inr (''stage6'', [''stage1'', ''stage2'', ''stage3'', ''stage4'', ''stage5''])
   \<and> os_remove fs_all (get_file_path repo_layout ''NEWS_JSON'' 2024 ''2330'') = Inr fs_no_news
   \<and> plan_summary (determine_resume_point repo_layout fs_no_news 2024 ''2330'' current_status) =
     Inr (''stage3'', [''stage1'', ''stage2'', ''stage4'', ''stage5''])"
  by (simp add: plan_summary_eq stages_def rc_all_pdf rc_all rc_no_news_pdf rc_no_news stage6_not_complete layout_paths os_remove_news)

text \<open>
  Claim C4 as stated says \<open>completed_stages = {stage1, stage2}\<close> after the deletion;
  the list the code returns also holds stage4 and stage5.
\<close>

theorem plan_2024_2330_completed_stages_counterexample:
  "plan_summary (determine_resume_point repo_layout fs_no_news 2024 ''2330'' ''stage3'') =
     Inr (''stage3'', [''stage1'', ''stage2'', ''stage4'', ''stage5''])
   \<and> set [''stage1'', ''stage2'', ''stage4'', ''stage5''] \<noteq> {''stage1'', ''stage2''}"
proof -
  have "''stage4'' \<in> set [''stage1'', ''stage2'', ''stage4'', ''stage5'']" by simp
  moreover have "''stage4'' \<notin> {''stage1'', ''stage2''}" by simp
  ultimately have "set [''stage1'', ''stage2'', ''stage4'', ''stage5''] \<noteq> {''stage1'', ''stage2''}"
    by metis
  then show ?thesis
    by (simp only: plan_summary_eq, simp add: stages_def rc_no_news_pdf rc_no_news stage6_not_complete)
qed

text \<open>
  Claim C8.  The result of \<open>determine_resume_point\<close> does not depend on the
  \<open>current_status\<close> argument: two calls that differ only in it return the same value.
\<close>

theorem resume_status_independent:
  "determine_resume_point cfg fs year company_code status1 =
   determine_resume_point cfg fs year company_code status2"
  by (simp add: determine_resume_point_def)

text \<open>
  Claim C10.  \<open>check_stage_completion\<close> returns a triple for every stage string and
  never raises.  When \<open>completed\<close> is false the path is the empty string, and for a
  string that is none of \<open>stage1\<close> .. \<open>stage6\<close> the result is
  \<open>(False, "", msg)\<close> with the non-empty message "unknown stage: " followed by the
  string.
\<close>

theorem check_stage_completion_total:
  "\<exists>c p m. check_stage_completion cfg fs year company_code stage = Inr (c, p, m)
     \<and> (\<not> c \<longrightarrow> p = [])
     \<and> (stage \<notin> set stages \<longrightarrow> \<not> c \<and> p = [] \<and> m = msg_unknown_stage @ stage \<and> m \<noteq> [])"
proof -
  obtain c p m where chk: "check_stage_completion cfg fs year company_code stage = Inr (c, p, m)"
      and empty: "\<not> c \<longrightarrow> p = []"
    using check_stage_completion_returns by blast
  have "stage \<notin> set stages \<longrightarrow>
          check_stage_completion cfg fs year company_code stage = Inr (False, [], msg_unknown_stage @ stage)"
    by (simp add: stages_def check_stage_completion_def)
  moreover have "msg_unknown_stage @ stage \<noteq> []"
    by (simp add: msg_unknown_stage_def)
  ultimately show ?thesis
    using chk empty by auto
qed

theorem check_stage_completion_total_witness:
  "''completed'' \<notin> set stages
   \<and> check_stage_completion repo_layout fs_all 2024 ''2330'' ''completed'' =
       Inr (False, [], msg_unknown_stage @ ''completed'')"
proof -
  have h: "''completed'' \<notin> set stages"
    by (simp add: stages_def)
  with check_stage_completion_total [of repo_layout fs_all 2024 "''2330''" "''completed''"]
  show ?thesis by auto
qed

text \<open>
  Claim C1, as the code has it.  \<open>determine_resume_point\<close> always returns; its
  \<open>stage_details\<close> hold the check of every stage in the fixed order stage1 .. stage6,
  \<open>completed_stages\<close> are the stages the check reports complete, and
  \<open>resume_from\<close> is the first stage in that order not reported complete (index
  \<open>k\<close>).  For a pair \<open>i < j\<close> with stage \<open>j\<close> reported complete and
  stage \<open>i\<close> not, the resume point is stage \<open>i\<close> or an earlier stage, and it is
  stage \<open>i\<close> exactly when every stage before \<open>i\<close> is reported complete.
\<close>

theorem resume_from_first_incomplete:
  "\<exists>r k. determine_resume_point cfg fs year company_code current_status = Inr r
     \<and> stage_details r = map (\<lambda>s. (s, detail_of cfg fs year company_code s)) stages
     \<and> completed_stages r = filter (reported_complete cfg fs year company_code) stages
     \<and> k < length stages
     \<and> resume_from r = stages ! k
     \<and> \<not> reported_complete cfg fs year company_code (stages ! k)
     \<and> (\<forall>h<k. reported_complete cfg fs year company_code (stages ! h))
     \<and> (\<forall>i j. i < j \<and> j < length stages
              \<and> reported_complete cfg fs year company_code (stages ! j)
              \<and> \<not> reported_complete cfg fs year company_code (stages ! i)
            \<longrightarrow> k \<le> i
                \<and> ((\<forall>h<i. reported_complete cfg fs year company_code (stages ! h)) \<longrightarrow> k = i))"
proof -
  let ?P = "reported_complete cfg fs year company_code"
  obtain k where k: "k < length stages"
      "(case List.find (\<lambda>s. \<not> ?P s) stages of Some s \<Rightarrow> s | None \<Rightarrow> ''stage6'') = stages ! k"
      "\<not> ?P (stages ! k)" "\<forall>h<k. ?P (stages ! h)"
    using first_incomplete_index [of ?P] stage6_not_complete [of cfg fs year company_code]
    by blast
  have pairs: "\<forall>i j. i < j \<and> j < length stages \<and> ?P (stages ! j) \<and> \<not> ?P (stages ! i)
            \<longrightarrow> k \<le> i \<and> ((\<forall>h<i. ?P (stages ! h)) \<longrightarrow> k = i)"
  proof (intro allI impI)
    fix i j
    assume a: "i < j \<and> j < length stages \<and> ?P (stages ! j) \<and> \<not> ?P (stages ! i)"
    have le: "k \<le> i"
    proof (rule ccontr)
      assume "\<not> k \<le> i"
      then have "i < k" by simp
      with k(4) have "?P (stages ! i)" by blast
      with a show False by blast
    qed
    have "(\<forall>h<i. ?P (stages ! h)) \<longrightarrow> k = i"
    proof
      assume b: "\<forall>h<i. ?P (stages ! h)"
      show "k = i"
      proof (rule ccontr)
        assume "k \<noteq> i"
        with le have "k < i" by simp
        with b have "?P (stages ! k)" by blast
        with k(3) show False by blast
      qed
    qed
    with le show "k \<le> i \<and> ((\<forall>h<i. ?P (stages ! h)) \<longrightarrow> k = i)" by blast
  qed
  define r where "r = \<lparr>resume_from = stages ! k,
          completed_stages = filter ?P stages,
          stage_details = map (\<lambda>s. (s, detail_of cfg fs year company_code s)) stages\<rparr>"
  have d: "determine_resume_point cfg fs year company_code current_status = Inr r"
    by (simp only: determine_resume_point_eq k(2) r_def)
  have sels: "stage_details r = map (\<lambda>s. (s, detail_of cfg fs year company_code s)) stages"
      "completed_stages r = filter ?P stages" "resume_from r = stages ! k"
    by (simp_all add: r_def)
  have "determine_resume_point cfg fs year company_code current_status = Inr r
     \<and> stage_details r = map (\<lambda>s. (s, detail_of cfg fs year company_code s)) stages
     \<and> completed_stages r = filter ?P stages
     \<and> k < length stages
     \<and> resume_from r = stages ! k
     \<and> \<not> ?P (stages ! k)
     \<and> (\<forall>h<k. ?P (stages ! h))
     \<and> (\<forall>i j. i < j \<and> j < length stages \<and> ?P (stages ! j) \<and> \<not> ?P (stages ! i)
            \<longrightarrow> k \<le> i \<and> ((\<forall>h<i. ?P (stages ! h)) \<longrightarrow> k = i))"
    using d sels k(1) k(3) k(4) pairs by (intro conjI)
  then show ?thesis by (intro exI)
qed

theorem resume_from_first_incomplete_witness:
  "(2::nat) < 3 \<and> 3 < length stages
   \<and> reported_complete repo_layout fs_no_news 2024 ''2330'' (stages ! 3)
   \<and> \<not> reported_complete repo_layout fs_no_news 2024 ''2330'' (stages ! 2)
   \<and> reported_complete repo_layout fs_no_news 2024 ''2330'' (stages ! 0)
   \<and> reported_complete repo_layout fs_no_news 2024 ''2330'' (stages ! 1)
   \<and> plan_summary (determine_resume_point repo_layout fs_no_news 2024 ''2330'' ''stage4'') =
       Inr (stages ! 2, [''stage1'', ''stage2'', ''stage4'', ''stage5''])"
proof -
  let ?P = "reported_complete repo_layout fs_no_news 2024 ''2330''"
  have s: "stages ! 0 = ''stage1''" "stages ! 1 = ''stage2''" "stages ! 2 = ''stage3''"
      "stages ! 3 = ''stage4''"
    by (simp_all add: stages_def)
  have len: "length stages = 6"
    by (simp add: stages_def)
  have h3: "?P (stages ! 3)"
    by (simp only: s rc_no_news)
  have h2: "\<not> ?P (stages ! 2)"
    by (simp only: s rc_no_news not_False_eq_True)
  have h0: "?P (stages ! 0)"
    by (simp only: s rc_no_news_pdf)
  have h1: "?P (stages ! 1)"
    by (simp only: s rc_no_news)
  have before: "\<forall>h<2. ?P (stages ! h)"
  proof (intro allI impI)
    fix h :: nat
    assume "h < 2"
    then consider "h = 0" | "h = 1" by linarith
    then show "?P (stages ! h)"
    proof cases
      case 1
      with h0 show ?thesis by simp
    next
      case 2
      with h1 show ?thesis by simp
    qed
  qed
  obtain r k where r: "determine_resume_point repo_layout fs_no_news 2024 ''2330'' ''stage4'' = Inr r"
      "completed_stages r = filter ?P stages" "resume_from r = stages ! k"
      "\<forall>i j. i < j \<and> j < length stages \<and> ?P (stages ! j) \<and> \<not> ?P (stages ! i)
            \<longrightarrow> k \<le> i \<and> ((\<forall>h<i. ?P (stages ! h)) \<longrightarrow> k = i)"
    using resume_from_first_incomplete [of repo_layout fs_no_news 2024 "''2330''" "''stage4''"]
    by blast
  have hyp: "(2::nat) < 3 \<and> 3 < length stages \<and> ?P (stages ! 3) \<and> \<not> ?P (stages ! 2)"
    using h3 h2 len by simp
  with r(4) have "k \<le> 2 \<and> ((\<forall>h<2. ?P (stages ! h)) \<longrightarrow> k = 2)"
    by blast
  with before have k2: "k = 2"
    by blast
  have f: "filter ?P stages = [''stage1'', ''stage2'', ''stage4'', ''stage5'']"
    by (simp add: stages_def rc_no_news_pdf rc_no_news stage6_not_complete)
  have "plan_summary (determine_resume_point repo_layout fs_no_news 2024 ''2330'' ''stage4'') =
       Inr (stages ! 2, [''stage1'', ''stage2'', ''stage4'', ''stage5''])"
    by (simp add: r(1) r(2) r(3) k2 f plan_summary_def)
  with hyp h0 h1 show ?thesis by (intro conjI) simp_all
qed

text \<open>
  Claim C1 as stated says that for any such pair \<open>resume_from\<close> equals stage \<open>i\<close>.
  With only the stage3 artifact on disk, the pair (stage2, stage3) has stage3 reported
  complete and the stage2 artifact missing, and \<open>resume_from\<close> is stage1.
\<close>

theorem resume_from_pair_counterexample:
  "reported_complete repo_layout fs_gap 2024 ''2330'' ''stage3''
   \<and> \<not> os_path_exists fs_gap (get_file_path repo_layout ''P1_JSON'' 2024 ''2330'')
   \<and> plan_summary (determine_resume_point repo_layout fs_gap 2024 ''2330'' ''stage2'') =
       Inr (''stage1'', [''stage3''])
   \<and> ''stage1'' \<noteq> ''stage2''"
proof -
  have g: "glob_glob fs_gap ''temp_data/esgReport/2024_2330_*.pdf'' = []"
    by (simp add: glob_glob_def fs_gap_def)
  have p1: "\<not> reported_complete repo_layout fs_gap 2024 ''2330'' ''stage1''"
    unfolding reported_complete_pdf layout_paths g by simp
  have rest: "\<not> reported_complete repo_layout fs_gap 2024 ''2330'' ''stage2''"
      "reported_complete repo_layout fs_gap 2024 ''2330'' ''stage3''"
      "\<not> reported_complete repo_layout fs_gap 2024 ''2330'' ''stage4''"
      "\<not> reported_complete repo_layout fs_gap 2024 ''2330'' ''stage5''"
    by (simp_all add: reported_complete_json layout_paths artifact_unusable_def fs_gap_def valid_node_def)
  have ex: "\<not> os_path_exists fs_gap (get_file_path repo_layout ''P1_JSON'' 2024 ''2330'')"
    by (simp add: layout_paths os_path_exists_def fs_gap_def)
  have "plan_summary (determine_resume_point repo_layout fs_gap 2024 ''2330'' ''stage2'') =
       Inr (''stage1'', [''stage3''])"
    by (simp only: plan_summary_eq, simp add: stages_def p1 rest stage6_not_complete)
  with rest(2) ex show ?thesis by simp
qed

text \<open>
  Claim C7.  Neither the planner nor the checker raises: \<open>determine_resume_point\<close>,
  \<open>check_stage_completion\<close> and \<open>check_json_valid\<close> return a value for every
  filesystem.  \<open>check_json_valid\<close> returns \<open>False\<close> with a non-empty message when
  the file is absent, cannot be read, cannot be parsed, or parses to an empty list or
  object (or to anything that is neither list nor object), and a stage whose artifact
  is in such a state is not among the completed stages.
\<close>

theorem planner_and_checker_never_raise:
  "(\<exists>r. determine_resume_point cfg fs year company_code current_status = Inr r
       \<and> (artifact_unusable fs (get_file_path cfg ''P1_JSON'' year company_code)
            \<longrightarrow> ''stage2'' \<notin> set (completed_stages r))
       \<and> (artifact_unusable fs (get_file_path cfg ''NEWS_JSON'' year company_code)
            \<longrightarrow> ''stage3'' \<notin> set (completed_stages r))
       \<and> (artifact_unusable fs (get_file_path cfg ''P2_JSON'' year company_code)
            \<longrightarrow> ''stage4'' \<notin> set (completed_stages r))
       \<and> (artifact_unusable fs (get_file_path cfg ''P3_JSON'' year company_code)
            \<longrightarrow> ''stage5'' \<notin> set (completed_stages r)))
   \<and> (\<exists>c p m. check_stage_completion cfg fs year company_code stage = Inr (c, p, m))
   \<and> (\<exists>b m. check_json_valid fs file_path = Inr (b, m) \<and> m \<noteq> []
          \<and> (artifact_unusable fs file_path \<longrightarrow> \<not> b))
   \<and> (\<not> os_path_exists fs file_path
          \<longrightarrow> check_json_valid fs file_path = Inr (False, msg_file_missing @ file_path))
   \<and> (os_path_exists fs file_path \<and> json_load fs file_path = Inl (JSONDecodeError e)
          \<longrightarrow> check_json_valid fs file_path = Inr (False, msg_parse_failed @ e))
   \<and> (os_path_exists fs file_path \<and> json_load fs file_path = Inl (OtherException e)
          \<longrightarrow> check_json_valid fs file_path = Inr (False, msg_read_failed @ e))
   \<and> (os_path_exists fs file_path
        \<and> (json_load fs file_path = Inr (JList []) \<or> json_load fs file_path = Inr (JDict []))
          \<longrightarrow> check_json_valid fs file_path = Inr (False, msg_json_empty))"
proof -
  let ?P = "reported_complete cfg fs year company_code"
  define r where "r = \<lparr>resume_from =
            (case List.find (\<lambda>s. \<not> ?P s) stages of Some s \<Rightarrow> s | None \<Rightarrow> ''stage6''),
          completed_stages = filter ?P stages,
          stage_details = map (\<lambda>s. (s, detail_of cfg fs year company_code s)) stages\<rparr>"
  have d: "determine_resume_point cfg fs year company_code current_status = Inr r"
    by (simp only: determine_resume_point_eq r_def)
  have cs: "set (completed_stages r) = {s \<in> set stages. ?P s}"
    by (simp add: r_def)
  have a: "artifact_unusable fs (get_file_path cfg ''P1_JSON'' year company_code)
            \<longrightarrow> ''stage2'' \<notin> set (completed_stages r)"
    by (simp add: cs reported_complete_json)
  have b: "artifact_unusable fs (get_file_path cfg ''NEWS_JSON'' year company_code)
            \<longrightarrow> ''stage3'' \<notin> set (completed_stages r)"
    by (simp add: cs reported_complete_json)
  have c: "artifact_unusable fs (get_file_path cfg ''P2_JSON'' year company_code)
            \<longrightarrow> ''stage4'' \<notin> set (completed_stages r)"
    by (simp add: cs reported_complete_json)
  have e: "artifact_unusable fs (get_file_path cfg ''P3_JSON'' year company_code)
            \<longrightarrow> ''stage5'' \<notin> set (completed_stages r)"
    by (simp add: cs reported_complete_json)
  have planner: "\<exists>r. determine_resume_point cfg fs year company_code current_status = Inr r
       \<and> (artifact_unusable fs (get_file_path cfg ''P1_JSON'' year company_code)
            \<longrightarrow> ''stage2'' \<notin> set (completed_stages r))
       \<and> (artifact_unusable fs (get_file_path cfg ''NEWS_JSON'' year company_code)
            \<longrightarrow> ''stage3'' \<notin> set (completed_stages r))
       \<and> (artifact_unusable fs (get_file_path cfg ''P2_JSON'' year company_code)
            \<longrightarrow> ''stage4'' \<notin> set (completed_stages r))
       \<and> (artifact_unusable fs (get_file_path cfg ''P3_JSON'' year company_code)
            \<longrightarrow> ''stage5'' \<notin> set (completed_stages r))"
    using d a b c e by (intro exI [of _ r] conjI)
  have checker: "\<exists>c p m. check_stage_completion cfg fs year company_code stage = Inr (c, p, m)"
    using check_stage_completion_returns [of cfg fs year company_code stage] by blast
  obtain m where m: "check_json_valid fs file_path = Inr (\<not> artifact_unusable fs file_path, m)" "m \<noteq> []"
    using check_json_valid_unusable by blast
  have valid: "\<exists>b m. check_json_valid fs file_path = Inr (b, m) \<and> m \<noteq> []
          \<and> (artifact_unusable fs file_path \<longrightarrow> \<not> b)"
    using m by (intro exI [of _ "\<not> artifact_unusable fs file_path"] exI [of _ m]) simp
  show ?thesis
    using planner checker valid check_json_valid_cases [of fs file_path]
    by (intro conjI) blast+
qed

theorem planner_and_checker_never_raise_witness:
  "artifact_unusable fs_corrupt (get_file_path repo_layout ''P1_JSON'' 2024 ''2330'')
   \<and> os_path_exists fs_corrupt ''temp_data/prompt1_json/2024_2330_p1.json''
   \<and> json_load fs_corrupt ''temp_data/prompt1_json/2024_2330_p1.json'' =
       Inl (JSONDecodeError ''Expecting value: line 1 column 1 (char 0)'')
   \<and> check_json_valid fs_corrupt ''temp_data/prompt1_json/2024_2330_p1.json'' =
       Inr (False, msg_parse_failed @ ''Expecting value: line 1 column 1 (char 0)'')
   \<and> \<not> isl (determine_resume_point repo_layout fs_corrupt 2024 ''2330'' ''stage2'')
   \<and> ''stage2'' \<notin> set (completed_stages (projr (determine_resume_point repo_layout fs_corrupt 2024 ''2330'' ''stage2'')))"
proof -
  have u: "artifact_unusable fs_corrupt (get_file_path repo_layout ''P1_JSON'' 2024 ''2330'')"
    by (simp add: layout_paths artifact_unusable_def fs_corrupt_def corrupt_node_def)
  have ex: "os_path_exists fs_corrupt ''temp_data/prompt1_json/2024_2330_p1.json''"
    by (simp add: os_path_exists_def fs_corrupt_def)
  have ld: "json_load fs_corrupt ''temp_data/prompt1_json/2024_2330_p1.json'' =
       Inl (JSONDecodeError ''Expecting value: line 1 column 1 (char 0)'')"
    by (simp add: json_load_def fs_corrupt_def corrupt_node_def)
  note t = planner_and_checker_never_raise [of repo_layout fs_corrupt 2024 "''2330''" "''stage2''"
      "''stage2''" "''temp_data/prompt1_json/2024_2330_p1.json''"
      "''Expecting value: line 1 column 1 (char 0)''"]
  from t ex ld have v: "check_json_valid fs_corrupt ''temp_data/prompt1_json/2024_2330_p1.json'' =
       Inr (False, msg_parse_failed @ ''Expecting value: line 1 column 1 (char 0)'')"
    by blast
  from t u obtain r where r: "determine_resume_point repo_layout fs_corrupt 2024 ''2330'' ''stage2'' = Inr r"
      "''stage2'' \<notin> set (completed_stages r)"
    by blast
  from r have "\<not> isl (determine_resume_point repo_layout fs_corrupt 2024 ''2330'' ''stage2'')"
      "''stage2'' \<notin> set (completed_stages (projr (determine_resume_point repo_layout fs_corrupt 2024 ''2330'' ''stage2'')))"
    by simp_all
  with u ex ld v show ?thesis by (intro conjI)
qed

section \<open>Claims about the analysis run\<close>

text \<open>
  Claim C5.  When the run starts at stage1 and the download fails (it returns
  \<open>(False, error)\<close> or raises), the run returns a \<open>failed\<close> response with code 500,
  the status of the job is \<open>failed\<close>, the registry entry is released, the files are
  those the download left, and the trace ends after the download: no later stage is
  entered and no other collaborator is called.
\<close>

theorem download_failure_is_fatal:
  assumes dl: "download_esg_report w (req_year rq) (req_company_code rq) (files s) = (res, fs')"
    and failed: "res = Inl e \<or> res = Inr (False, err)"
  shows "\<exists>resp s'. run_analysis cfg w rq ''stage1'' s = (resp, s')
           \<and> resp_status resp = ''failed'' \<and> resp_code resp = 500
           \<and> map_of (analysis_status s') (req_esg_id rq) = Some ''failed''
           \<and> \<not> is_actively_processing (req_esg_id rq) s'
           \<and> files s' = fs'
           \<and> trace s' = trace s @ [StatusSet (req_esg_id rq) ''stage1'', Called Download,
                                     StatusSet (req_esg_id rq) ''failed'']"
proof -
  define s0 where "s0 = mark_processing_start (req_esg_id rq) (req_now rq) s"
  define s1 where "s1 = update_analysis_status (req_esg_id rq) ''stage1'' s0"
  define s2 where "s2 = emit (Called Download) (s1\<lparr>files := fs'\<rparr>)"
  define s3 where "s3 = mark_processing_end (req_esg_id rq)
                          (update_analysis_status (req_esg_id rq) ''failed'' s2)"
  have f1: "files s1 = files s"
    by (simp add: s1_def s0_def update_analysis_status_def emit_def mark_processing_start_def)
  have st3: "map_of (analysis_status s3) (req_esg_id rq) = Some ''failed''"
    by (simp add: s3_def mark_processing_end_def update_analysis_status_def emit_def
        AList.update_conv')
  have act3: "\<not> is_actively_processing (req_esg_id rq) s3"
    by (simp add: is_actively_processing_def s3_def registry_released)
  have fs3: "files s3 = fs'"
    by (simp add: s3_def s2_def mark_processing_end_def update_analysis_status_def emit_def)
  have tr3: "trace s3 = trace s @ [StatusSet (req_esg_id rq) ''stage1'', Called Download,
                                     StatusSet (req_esg_id rq) ''failed'']"
    by (simp add: s3_def s2_def s1_def s0_def mark_processing_end_def update_analysis_status_def
        emit_def mark_processing_start_def)
  from failed show ?thesis
  proof
    assume r: "res = Inl e"
    have b: "stage1_block cfg w rq ''stage1'' s0 = Raise e s2"
      using dl f1 r by (simp add: stage1_block_def Let_def s1_def [symmetric] s2_def)
    have "run_analysis cfg w rq ''stage1'' s =
        (\<lparr>resp_status = ''failed'', resp_message = msg_processing_error @ exn_text e,
          resp_data = None, resp_esg_id = req_esg_id rq, resp_code = 500\<rparr>, s3)"
      by (simp add: run_analysis_def try_body_def s0_def [symmetric] b s3_def)
    with st3 act3 fs3 tr3 show ?thesis by simp
  next
    assume r: "res = Inr (False, err)"
    have b: "stage1_block cfg w rq ''stage1'' s0 =
        Return \<lparr>resp_status = ''failed'', resp_message = msg_download_failed @ err,
          resp_data = None, resp_esg_id = req_esg_id rq, resp_code = 500\<rparr> s3"
      using dl f1 r by (simp add: stage1_block_def Let_def s1_def [symmetric] s2_def s3_def)
    have "run_analysis cfg w rq ''stage1'' s =
        (\<lparr>resp_status = ''failed'', resp_message = msg_download_failed @ err,
          resp_data = None, resp_esg_id = req_esg_id rq, resp_code = 500\<rparr>, s3)"
      by (simp add: run_analysis_def try_body_def s0_def [symmetric] b)
    with st3 act3 fs3 tr3 show ?thesis by simp
  qed
qed

theorem download_failure_is_fatal_witness:
  "download_esg_report world_download_fails (req_year request_2330)
       (req_company_code request_2330) (files state_fresh) = (Inr (False, ''HTTP 404''), [])
   \<and> resp_status (fst (run_analysis repo_layout world_download_fails request_2330 ''stage1''
          state_fresh)) = ''failed''
   \<and> files (snd (run_analysis repo_layout world_download_fails request_2330 ''stage1''
          state_fresh)) = []
   \<and> trace (snd (run_analysis repo_layout world_download_fails request_2330 ''stage1''
          state_fresh)) =
       [StatusSet ''20242330'' ''stage1'', Called Download, StatusSet ''20242330'' ''failed'']"
proof -
  have dl: "download_esg_report world_download_fails (req_year request_2330)
       (req_company_code request_2330) (files state_fresh) = (Inr (False, ''HTTP 404''), [])"
    by (simp add: world_download_fails_def world_ok_def state_fresh_def)
  have id: "req_esg_id request_2330 = ''20242330''" and tr: "trace state_fresh = []"
    by (simp_all add: request_2330_def state_fresh_def)
  from download_failure_is_fatal [where cfg = repo_layout and e = "OtherException []", OF dl]
  obtain resp s' where
    "run_analysis repo_layout world_download_fails request_2330 ''stage1'' state_fresh = (resp, s')"
    "resp_status resp = ''failed''" "files s' = []"
    "trace s' = trace state_fresh @ [StatusSet (req_esg_id request_2330) ''stage1'', Called Download,
                                     StatusSet (req_esg_id request_2330) ''failed'']"
    by blast
  with dl id tr show ?thesis by simp
qed

text \<open>
  Claim C2, evaluated on the code.  The extraction collaborator raises in a run that
  starts at stage1.  The exception stays in its thread: the run enters stage3, stage4
  and stage5 and calls their collaborators, enters stage6, and fails only there, when
  \<open>analysis_result.get\<close> is applied to \<open>None\<close>.  The claim says that no stage after
  stage2 is executed.
\<close>

theorem extraction_failure_still_runs_stages_3_to_5:
  "resp_status (fst (run_analysis repo_layout world_analysis_raises request_2330 ''stage1''
       state_fresh)) = ''failed''
   \<and> resp_message (fst (run_analysis repo_layout world_analysis_raises request_2330 ''stage1''
       state_fresh)) =
       msg_processing_error @ ''AttributeError: NoneType object has no attribute get''
   \<and> trace (snd (run_analysis repo_layout world_analysis_raises request_2330 ''stage1''
       state_fresh)) =
       [StatusSet ''20242330'' ''stage1'', Called Download,
        StatusSet ''20242330'' ''stage2'', Called WordCloud, Called Analyze,
        Printed (ThreadException ''RuntimeError: AI analysis failed''),
        StatusSet ''20242330'' ''stage3'', Called News,
        StatusSet ''20242330'' ''stage4'', Called Verify,
        StatusSet ''20242330'' ''stage5'', Called SourceCheck,
        StatusSet ''20242330'' ''stage6'',
        StatusSet ''20242330'' ''failed'']"
  by (simp add: run_defs scenario_defs world_analysis_raises_def os_path_join_def str_int_2024
      os_path_exists_def json_load_def)

text \<open>
  Claim C3, evaluated on the code.  When the stage5 artifact is missing at stage6, and
  when the insert reports failure, the run sets the status to \<open>failed\<close> and returns a
  \<open>failed\<close> response while the registry entry made at the start of the run is still
  there.  The claim says the entry is removed on every such path.
\<close>

theorem failed_run_keeps_registry_entry:
  "resp_status (fst (run_analysis repo_layout world_source_check_fails request_2330 ''stage1''
       state_fresh)) = ''failed''
   \<and> map_of (analysis_status (snd (run_analysis repo_layout world_source_check_fails
       request_2330 ''stage1'' state_fresh))) ''20242330'' = Some ''failed''
   \<and> is_actively_processing ''20242330'' (snd (run_analysis repo_layout
       world_source_check_fails request_2330 ''stage1'' state_fresh))
   \<and> resp_status (fst (run_analysis repo_layout world_insert_fails request_2330 ''stage1''
       state_fresh)) = ''failed''
   \<and> map_of (analysis_status (snd (run_analysis repo_layout world_insert_fails
       request_2330 ''stage1'' state_fresh))) ''20242330'' = Some ''failed''
   \<and> is_actively_processing ''20242330'' (snd (run_analysis repo_layout
       world_insert_fails request_2330 ''stage1'' state_fresh))"
  by (simp add: run_defs scenario_defs world_source_check_fails_def world_insert_fails_def
      os_path_join_def str_int_2024 os_path_exists_def json_load_def is_actively_processing_def)

text \<open>
  Claim C9.  When stage6 has read the stage5 artifact, the insert has succeeded and the
  read-back gives status \<open>completed\<close> with the scores computed, the stage returns the
  \<open>completed\<close> response with code 200 and releases the registry entry, whatever
  happens to the deletions.  The files it deletes are the five of \<open>file_targets\<close>:
  the report PDF under the name built from year, company code and company name, and
  the four JSON files.  Each of them whose removal does not fail is gone afterwards,
  and each that is still there has a "cannot delete" line in the trace.
\<close>

theorem finalization_deletes_artifacts:
  assumes p3: "os_path_exists (files s)
        (os_path_join (PATHS cfg ''P3_JSON'')
           (str_int (req_year rq) @ ''_'' @ req_company_code rq @ ''_p3.json''))"
    and load: "json_load (files s)
        (os_path_join (PATHS cfg ''P3_JSON'')
           (str_int (req_year rq) @ ''_'' @ req_company_code rq @ ''_p3.json'')) = Inr items"
    and len: "py_len items = Inr n"
    and ins: "insert_analysis_results w (req_esg_id rq) (req_company_name rq) (req_industry rq)
        (dict_get d ''url'' (''https://mops.twse.com.tw/mops/web/t100sb07_'' @ str_int (req_year rq)))
        items = Inr (True, insert_msg)"
    and q: "query_company_data w (req_year rq) (req_company_code rq) = Inr ''completed''"
    and sc: "calculate_esg_scores w = Inr company_obj"
  shows "\<exists>resp s'. stage6_block cfg w rq (Some d) s = (Inr resp, s')
      \<and> resp_status resp = ''completed'' \<and> resp_data resp = Some company_obj
      \<and> resp_code resp = 200
      \<and> map_of (analysis_status s') (req_esg_id rq) = Some ''completed''
      \<and> \<not> is_actively_processing (req_esg_id rq) s'
      \<and> (\<forall>p \<in> set (file_targets cfg (req_year rq) (req_company_code rq) (req_company_name rq)).
            (removable (files s) p \<longrightarrow> \<not> os_path_exists (files s') p)
          \<and> (os_path_exists (files s') p
               \<longrightarrow> (\<exists>e. Printed (CannotDelete p e) \<in> set (trace s'))))"
proof -
  let ?id = "req_esg_id rq"
  let ?targets = "file_targets cfg (req_year rq) (req_company_code rq) (req_company_name rq)"
  define s2 where "s2 = emit (Called Insert) (update_analysis_status ?id ''stage6'' s)"
  define s3 where "s3 = emit (Called Scores) (emit (Called Query)
              (update_analysis_status ?id ''completed'' s2))"
  define s4 where "s4 = fold cleanup_one ?targets s3"
  define s5 where "s5 = mark_processing_end ?id s4"
  define resp where "resp = \<lparr>resp_status = ''completed'', resp_message = msg_done,
           resp_data = Some company_obj, resp_esg_id = ?id, resp_code = 200\<rparr>"
  have f1: "files (update_analysis_status ?id ''stage6'' s) = files s"
    by (simp add: update_analysis_status_def emit_def)
  have f3: "files s3 = files s"
    by (simp add: s3_def s2_def update_analysis_status_def emit_def)
  have st3: "map_of (analysis_status s3) ?id = Some ''completed''"
    by (simp add: s3_def update_analysis_status_def emit_def AList.update_conv')
  have fin: "finalization cfg w rq s2 = (Inr resp, s5)"
    by (simp add: finalization_completed [OF q sc] resp_def s5_def s4_def s3_def
        cleanup_temp_files_def)
  have run: "stage6_block cfg w rq (Some d) s = (Inr resp, s5)"
    using p3 load len ins
    by (simp add: stage6_block_def Let_def f1 s2_def [symmetric] fin)
  have f5: "files s5 = files s4" "trace s5 = trace s4" "analysis_status s5 = analysis_status s4"
    by (simp_all add: s5_def mark_processing_end_def)
  have st5: "map_of (analysis_status s5) ?id = Some ''completed''"
    by (simp add: f5 s4_def fold_cleanup_other_fields st3)
  have act5: "\<not> is_actively_processing ?id s5"
    by (simp add: is_actively_processing_def s5_def registry_released)
  have cleaned: "\<forall>p \<in> set ?targets.
            (removable (files s) p \<longrightarrow> \<not> os_path_exists (files s5) p)
          \<and> (os_path_exists (files s5) p
               \<longrightarrow> (\<exists>e. Printed (CannotDelete p e) \<in> set (trace s5)))"
  proof
    fix p
    assume "p \<in> set ?targets"
    from fold_cleanup_done [OF this, of s3]
    show "(removable (files s) p \<longrightarrow> \<not> os_path_exists (files s5) p)
          \<and> (os_path_exists (files s5) p
               \<longrightarrow> (\<exists>e. Printed (CannotDelete p e) \<in> set (trace s5)))"
      unfolding f5 s4_def [symmetric] f3 by blast
  qed
  have "resp_status resp = ''completed''" "resp_data resp = Some company_obj" "resp_code resp = 200"
    by (simp_all add: resp_def)
  with run st5 act5 cleaned show ?thesis
    by (intro exI [of _ resp] exI [of _ s5] conjI)
qed

theorem finalization_deletes_artifacts_witness:
  "os_path_exists (files state_before_stage6) ''temp_data/prompt3_json/2024_2330_p3.json''
   \<and> removable (files state_before_stage6) ''temp_data/prompt3_json/2024_2330_p3.json''
   \<and> ''temp_data/prompt3_json/2024_2330_p3.json''
         \<in> set (file_targets repo_layout 2024 ''2330'' ''TSMC'')
   \<and> \<not> isl (fst (stage6_block repo_layout world_ok request_2330 (Some [(''url'', [])])
         state_before_stage6))
   \<and> resp_status (projr (fst (stage6_block repo_layout world_ok request_2330
         (Some [(''url'', [])]) state_before_stage6))) = ''completed''
   \<and> \<not> os_path_exists (files (snd (stage6_block repo_layout world_ok request_2330
         (Some [(''url'', [])]) state_before_stage6))) ''temp_data/prompt3_json/2024_2330_p3.json''
   \<and> files (snd (stage6_block repo_layout world_ok request_2330 (Some [(''url'', [])])
         state_before_stage6)) = [(''temp_data/prompt2_json/2024_2330_p2.json'', locked_node)]
   \<and> Printed (CannotDelete ''temp_data/prompt2_json/2024_2330_p2.json'' ''PermissionError'')
         \<in> set (trace (snd (stage6_block repo_layout world_ok request_2330
               (Some [(''url'', [])]) state_before_stage6)))"
proof -
  let ?p3 = "''temp_data/prompt3_json/2024_2330_p3.json''"
  let ?run = "stage6_block repo_layout world_ok request_2330 (Some [(''url'', [])])
         state_before_stage6"
  have rq: "req_year request_2330 = 2024" "req_company_code request_2330 = ''2330''"
      "req_company_name request_2330 = ''TSMC''" "req_esg_id request_2330 = ''20242330''"
      "req_industry request_2330 = ''Semiconductor''"
    by (simp_all add: request_2330_def)
  have path: "os_path_join (PATHS repo_layout ''P3_JSON'')
           (str_int (req_year request_2330) @ ''_'' @ req_company_code request_2330 @ ''_p3.json'')
        = ?p3"
    by (simp add: rq repo_layout_def os_path_join_def str_int_2024)
  have ex: "os_path_exists (files state_before_stage6) ?p3"
    by (simp add: os_path_exists_def state_before_stage6_def pdf_2330_def)
  have ld: "json_load (files state_before_stage6) ?p3 = Inr (JList [JDict [(''risk'', JInt 1)]])"
    by (simp add: json_load_def state_before_stage6_def pdf_2330_def valid_node_def)
  have rm: "removable (files state_before_stage6) ?p3"
    by (simp add: removable_def state_before_stage6_def pdf_2330_def valid_node_def)
  have tg: "?p3 \<in> set (file_targets repo_layout 2024 ''2330'' ''TSMC'')"
    by (simp add: targets_2330)
  have ln: "py_len (JList [JDict [(''risk'', JInt 1)]]) = Inr 1"
    by simp
  have ins: "insert_analysis_results world_ok (req_esg_id request_2330)
        (req_company_name request_2330) (req_industry request_2330)
        (dict_get [(''url'', [])] ''url''
           (''https://mops.twse.com.tw/mops/web/t100sb07_'' @ str_int (req_year request_2330)))
        (JList [JDict [(''risk'', JInt 1)]]) = Inr (True, ''ok'')"
    by (simp add: world_ok_def)
  have q: "query_company_data world_ok (req_year request_2330) (req_company_code request_2330)
        = Inr ''completed''"
    by (simp add: world_ok_def)
  have sc: "calculate_esg_scores world_ok = Inr (JDict [(''id'', JStr ''20242330'')])"
    by (simp add: world_ok_def)
  from finalization_deletes_artifacts [of state_before_stage6 repo_layout request_2330,
      unfolded path, OF ex ld ln ins q sc]
  obtain resp s' where r: "?run = (Inr resp, s')" "resp_status resp = ''completed''"
      "\<forall>p \<in> set (file_targets repo_layout (req_year request_2330)
                    (req_company_code request_2330) (req_company_name request_2330)).
            (removable (files state_before_stage6) p \<longrightarrow> \<not> os_path_exists (files s') p)
          \<and> (os_path_exists (files s') p
               \<longrightarrow> (\<exists>e. Printed (CannotDelete p e) \<in> set (trace s')))"
    by blast
  from r(3) tg rm have gone: "\<not> os_path_exists (files s') ?p3"
    unfolding rq by blast
  have ev: "files (snd ?run) = [(''temp_data/prompt2_json/2024_2330_p2.json'', locked_node)]
      \<and> Printed (CannotDelete ''temp_data/prompt2_json/2024_2330_p2.json'' ''PermissionError'')
         \<in> set (trace (snd ?run))"
    by (simp add: run_defs request_2330_def world_ok_def state_before_stage6_def
          cleanup_other_fields os_path_exists_def json_load_def valid_node_def
          layout_dirs os_path_join_def str_int_2024 pdf_2330_def,
        simp add: cleanup_temp_files_def targets_2330 cleanup_one_def os_remove_def
          os_path_exists_def emit_def pdf_node_def pdf_2330_def valid_node_def locked_node_def)
  from r(1,2) gone have "\<not> isl (fst ?run)" "resp_status (projr (fst ?run)) = ''completed''"
      "\<not> os_path_exists (files (snd ?run)) ?p3"
    by simp_all
  with ex rm tg ev show ?thesis by (intro conjI) simp_all
qed

text \<open>
  Claim C6.  Let the run start at stage1, stage2 or stage3, with the download
  succeeding when it starts at stage1, and let the news search fail, by a result with
  \<open>success = False\<close> or by an exception.  Then the trace of the run has the
  segment "status stage3, news search called, warning printed, status stage4,
  verification called": the failure is printed, the status is not set to \<open>failed\<close>
  before or at that point, and stage4 is entered next.  And there are runs in which the
  news search fails, in either way, that end with the \<open>completed\<close> response and
  status.
\<close>

theorem news_failure_is_not_fatal:
  assumes rf: "rf \<in> set [''stage1'', ''stage2'', ''stage3'']"
    and dl: "rf = ''stage1'' \<longrightarrow>
      (\<forall>fs. \<exists>p fs'. download_esg_report w (req_year rq) (req_company_code rq) fs = (Inr (True, p), fs'))"
    and news: "\<forall>fs. soft_failed (fst (search_news_for_report w (req_year rq) (req_company_code rq) fs))"
  shows "(\<exists>resp s' pre post warning.
      run_analysis cfg w rq rf s = (resp, s')
      \<and> trace s' = trace s @ pre @
            [StatusSet (req_esg_id rq) ''stage3'', Called News, Printed warning,
             StatusSet (req_esg_id rq) ''stage4'', Called Verify] @ post
      \<and> StatusSet (req_esg_id rq) ''failed'' \<notin> set pre
      \<and> ((\<exists>e. warning = NewsError e) \<or> (\<exists>e. warning = NewsFailed e)))
    \<and> (\<exists>w'. (\<forall>fs. \<exists>e fs'. search_news_for_report w' 2024 ''2330'' fs = (Inl e, fs'))
          \<and> resp_status (fst (run_analysis repo_layout w' request_2330 ''stage1'' state_fresh))
                = ''completed''
          \<and> map_of (analysis_status (snd (run_analysis repo_layout w' request_2330 ''stage1''
                state_fresh))) ''20242330'' = Some ''completed'')
    \<and> (\<exists>w'. (\<forall>fs. \<exists>r fs'. search_news_for_report w' 2024 ''2330'' fs = (Inr r, fs')
                    \<and> \<not> success r)
          \<and> resp_status (fst (run_analysis repo_layout w' request_2330 ''stage1'' state_fresh))
                = ''completed''
          \<and> map_of (analysis_status (snd (run_analysis repo_layout w' request_2330 ''stage1''
                state_fresh))) ''20242330'' = Some ''completed'')"
proof -
  let ?id = "req_esg_id rq"
  define s0 where "s0 = mark_processing_start ?id (req_now rq) s"
  have t0: "trace s0 = trace s"
    by (simp add: s0_def mark_start_trace)
  obtain p s1 t1 where b1: "stage1_block cfg w rq rf s0 = Continue p s1"
      and t1: "trace s1 = trace s0 @ t1" "StatusSet ?id ''failed'' \<notin> set t1"
    using stage1_continues [OF dl] by blast
  obtain a s2 t2 where b2: "stage2_block w rq rf p s1 = (a, s2)"
      and t2: "trace s2 = trace s1 @ t2" "StatusSet ?id ''failed'' \<notin> set t2"
    using stage2_trace by blast
  define s3 where "s3 = stage3_block w rq rf s2"
  define s4 where "s4 = stage4_block w rq rf s3"
  define s5 where "s5 = stage5_block w rq rf s4"
  obtain warning where t3: "trace s3 = trace s2 @ [StatusSet ?id ''stage3'', Called News, Printed warning]"
      and wf: "(\<exists>e. warning = NewsError e) \<or> (\<exists>e. warning = NewsFailed e)"
    using stage3_failure_trace [OF rf news] unfolding s3_def by blast
  obtain t4 where t4: "trace s4 = trace s3 @ [StatusSet ?id ''stage4'', Called Verify] @ t4"
    using stage4_trace [OF rf] unfolding s4_def by blast
  obtain t5 where t5: "trace s5 = trace s4 @ t5"
    using stage5_trace unfolding s5_def by blast
  obtain res6 s6 where b6: "stage6_block cfg w rq a s5 = (res6, s6)"
    by (cases "stage6_block cfg w rq a s5") auto
  obtain t6 where t6: "trace s6 = trace s5 @ t6"
    using stage6_trace [of cfg w rq a s5] b6 by auto
  have body: "try_body cfg w rq rf s0 = (res6, s6)"
    by (simp add: try_body_def b1 b2 s3_def [symmetric] s4_def [symmetric] s5_def [symmetric] b6)
  have seg: "trace s6 = trace s @ (t1 @ t2) @
            [StatusSet ?id ''stage3'', Called News, Printed warning,
             StatusSet ?id ''stage4'', Called Verify] @ (t4 @ t5 @ t6)"
    by (simp add: t6 t5 t4 t3 t2 t1 t0)
  have pre: "StatusSet ?id ''failed'' \<notin> set (t1 @ t2)"
    using t1(2) t2(2) by simp
  have part_a: "\<exists>resp s' pre post warning.
      run_analysis cfg w rq rf s = (resp, s')
      \<and> trace s' = trace s @ pre @
            [StatusSet ?id ''stage3'', Called News, Printed warning,
             StatusSet ?id ''stage4'', Called Verify] @ post
      \<and> StatusSet ?id ''failed'' \<notin> set pre
      \<and> ((\<exists>e. warning = NewsError e) \<or> (\<exists>e. warning = NewsFailed e))"
  proof (cases res6)
    case (Inr r)
    then have "run_analysis cfg w rq rf s = (r, s6)"
      by (simp add: run_analysis_def s0_def [symmetric] body)
    with seg pre wf show ?thesis by blast
  next
    case (Inl e)
    define s7 where "s7 = mark_processing_end ?id (update_analysis_status ?id ''failed'' s6)"
    have "run_analysis cfg w rq rf s =
        (\<lparr>resp_status = ''failed'', resp_message = msg_processing_error @ exn_text e,
          resp_data = None, resp_esg_id = ?id, resp_code = 500\<rparr>, s7)"
      using Inl by (simp add: run_analysis_def s0_def [symmetric] body s7_def)
    moreover have "trace s7 = trace s @ (t1 @ t2) @
            [StatusSet ?id ''stage3'', Called News, Printed warning,
             StatusSet ?id ''stage4'', Called Verify] @ (t4 @ t5 @ t6 @ [StatusSet ?id ''failed''])"
      by (simp add: s7_def mark_end_trace update_status_trace seg)
    ultimately show ?thesis using pre wf by blast
  qed
  have raises: "\<forall>fs. \<exists>e fs'. search_news_for_report world_news_raises 2024 ''2330'' fs = (Inl e, fs')"
    by (simp add: world_news_raises_def)
  have fails: "\<forall>fs. \<exists>r fs'. search_news_for_report world_news_fails 2024 ''2330'' fs = (Inr r, fs')
                    \<and> \<not> success r"
    by (simp add: world_news_fails_def failed_result_def)
  have part_b: "\<exists>w'. (\<forall>fs. \<exists>e fs'. search_news_for_report w' 2024 ''2330'' fs = (Inl e, fs'))
          \<and> resp_status (fst (run_analysis repo_layout w' request_2330 ''stage1'' state_fresh))
                = ''completed''
          \<and> map_of (analysis_status (snd (run_analysis repo_layout w' request_2330 ''stage1''
                state_fresh))) ''20242330'' = Some ''completed''"
    using raises news_down_runs_complete(1,2) by (intro exI [of _ world_news_raises] conjI)
  have part_c: "\<exists>w'. (\<forall>fs. \<exists>r fs'. search_news_for_report w' 2024 ''2330'' fs = (Inr r, fs')
                    \<and> \<not> success r)
          \<and> resp_status (fst (run_analysis repo_layout w' request_2330 ''stage1'' state_fresh))
                = ''completed''
          \<and> map_of (analysis_status (snd (run_analysis repo_layout w' request_2330 ''stage1''
                state_fresh))) ''20242330'' = Some ''completed''"
    using fails news_down_runs_complete(3,4) by (intro exI [of _ world_news_fails] conjI)
  from part_a part_b part_c show ?thesis by (intro conjI)
qed

theorem news_failure_is_not_fatal_witness:
  "''stage1'' \<in> set [''stage1'', ''stage2'', ''stage3'']
   \<and> soft_failed (fst (search_news_for_report world_news_raises (req_year request_2330)
         (req_company_code request_2330) []))
   \<and> (\<exists>pre post warning.
         trace (snd (run_analysis repo_layout world_news_raises request_2330 ''stage1''
            state_fresh)) =
           pre @ [StatusSet ''20242330'' ''stage3'', Called News, Printed warning,
                  StatusSet ''20242330'' ''stage4'', Called Verify] @ post
         \<and> StatusSet ''20242330'' ''failed'' \<notin> set pre)
   \<and> resp_status (fst (run_analysis repo_layout world_news_raises request_2330 ''stage1''
         state_fresh)) = ''completed''"
proof -
  have rf: "''stage1'' \<in> set [''stage1'', ''stage2'', ''stage3'']"
    by simp
  have dl: "''stage1'' = ''stage1'' \<longrightarrow>
      (\<forall>fs. \<exists>p fs'. download_esg_report world_news_raises (req_year request_2330)
          (req_company_code request_2330) fs = (Inr (True, p), fs'))"
    by (simp add: world_news_raises_def world_ok_def)
  have news: "\<forall>fs. soft_failed (fst (search_news_for_report world_news_raises
      (req_year request_2330) (req_company_code request_2330) fs))"
    by (simp add: world_news_raises_def soft_failed_def)
  have id: "req_esg_id request_2330 = ''20242330''" and tr: "trace state_fresh = []"
    by (simp_all add: request_2330_def state_fresh_def)
  from news_failure_is_not_fatal [OF rf dl news, of repo_layout state_fresh]
  obtain resp s' pre post warning where
      r: "run_analysis repo_layout world_news_raises request_2330 ''stage1'' state_fresh = (resp, s')"
      and t: "trace s' = trace state_fresh @ pre @
            [StatusSet (req_esg_id request_2330) ''stage3'', Called News, Printed warning,
             StatusSet (req_esg_id request_2330) ''stage4'', Called Verify] @ post"
      and nf: "StatusSet (req_esg_id request_2330) ''failed'' \<notin> set pre"
    by blast
  have seg: "\<exists>pre post warning.
         trace (snd (run_analysis repo_layout world_news_raises request_2330 ''stage1''
            state_fresh)) =
           pre @ [StatusSet ''20242330'' ''stage3'', Called News, Printed warning,
                  StatusSet ''20242330'' ''stage4'', Called Verify] @ post
         \<and> StatusSet ''20242330'' ''failed'' \<notin> set pre"
    using r t nf unfolding id tr by (intro exI [of _ pre] exI [of _ post] exI [of _ warning]) simp
  from rf news seg news_down_runs_complete(1) show ?thesis
    by (intro conjI) blast+
qed

end
